theory Spec2Isabelle
  imports Complex_Main "HOL-Library.AList" "HOL-Library.Sublist"
begin

section \<open>Values exchanged with the libraries\<close>

text \<open>
  The notebook \<^verbatim>\<open>examples/gravitational_waves_detection.ipynb\<close> is a linear script of
  library calls. Its code cells are embedded below as state transformers over the
  kernel's global variables; whatever a library computes is a parameter of the model.

  Python floats are read as real numbers; a metric may also be NaN. Arrays handed to
  and returned by the transformers are nested lists of numbers.
\<close>

datatype pyfloat = Fin real | NaN

datatype exn = NameError | IndexError | ValueError | NotFittedError | Exception string

datatype nd = Num real | Arr "nd list"

definition of_series :: "real list \<Rightarrow> nd" where
  "of_series xs = Arr (map Num xs)"

definition of_collection :: "real list list \<Rightarrow> nd" where
  "of_collection xss = Arr (map of_series xss)"

text \<open>
  The estimator objects the notebook constructs, with the keyword arguments it passes.
  A constructor only records its parameters.
\<close>

datatype estimator =
    SingleTakensEmbedding string int nat nat nat
  | TakensEmbedding nat nat nat
  | PCA nat
  | CollectionTransformer estimator int
  | VietorisRipsPersistence "nat list" int
  | Scaler
  | PersistenceEntropy bool int
  | LogisticRegression

datatype pipeline = Pipeline "(string \<times> estimator) list"

text \<open>A classifier object: its configuration and, once \<^verbatim>\<open>fit\<close> has run, what was learnt.\<close>

datatype 'm classifier = Classifier estimator "'m option"

record scatter =
  sc_x :: "nat list"
  sc_y :: "real list"
  sc_mode :: string
  sc_name :: string

record sample =
  noisy :: "real list"
  gw :: "real list"
  present :: bool

section \<open>Observable effects\<close>

text \<open>
  Every call into a library is logged with how it ended; \<^verbatim>\<open>print\<close> and the rich output
  of a cell are logged too. \<open>WriteFile\<close> stands for writing a file from the notebook's
  own code.
\<close>

datatype operation =
    YouTubeVideo string nat nat
  | MakeGravitationalWaves string nat real real nat
  | Argmin
  | Argmax
  | MakeSubplots nat nat
  | AddTrace string nat nat
  | FigShow
  | FitTransform estimator
  | PlotPointCloud
  | TrainTestSplit real nat
  | Fit estimator
  | Predict
  | PredictProba
  | AccuracyScore
  | RocAucScore

datatype outcome = Returned | Raised exn

datatype printed = PNat nat | PFloat pyfloat

datatype event =
    Call operation outcome
  | Print string printed
  | Display
  | WriteFile string

section \<open>The libraries, as parameters\<close>

text \<open>
  None of the functions below is defined in the notebook. Each is a field of the record
  \<open>lib\<close>, so every theorem that quantifies over \<open>lib\<close> holds whatever the libraries
  compute, and whichever of their calls raise. \<open>'m\<close> is what a fitted classifier
  holds, \<open>'fig\<close> a displayable object.
\<close>

record ('m, 'fig) lib =
  youtube_video :: "string \<Rightarrow> nat \<Rightarrow> nat \<Rightarrow> exn + 'fig"
  samples :: "string \<Rightarrow> nat \<Rightarrow> real \<Rightarrow> real \<Rightarrow> nat \<Rightarrow> exn + sample list"
  argmin :: "int list \<Rightarrow> exn + nat"
  argmax :: "int list \<Rightarrow> exn + nat"
  make_subplots :: "nat \<Rightarrow> nat \<Rightarrow> exn + 'fig"
  add_trace :: "'fig \<Rightarrow> scatter \<Rightarrow> nat \<Rightarrow> nat \<Rightarrow> exn + 'fig"
  fig_show :: "'fig \<Rightarrow> exn + unit"
  fit_transform :: "estimator \<Rightarrow> nd \<Rightarrow> exn + nd"
  plot_point_cloud :: "nd \<Rightarrow> exn + 'fig"
  train_test_split :: "nd \<Rightarrow> int list \<Rightarrow> real \<Rightarrow> nat \<Rightarrow> exn + (nd \<times> nd \<times> int list \<times> int list)"
  fit :: "estimator \<Rightarrow> nd \<Rightarrow> int list \<Rightarrow> exn + 'm"
  predict :: "'m \<Rightarrow> nd \<Rightarrow> exn + int list"
  predict_proba :: "'m \<Rightarrow> nd \<Rightarrow> exn + real list list"
  accuracy_score :: "int list \<Rightarrow> int list \<Rightarrow> exn + pyfloat"
  roc_auc_score :: "int list \<Rightarrow> real list \<Rightarrow> exn + pyfloat"

section \<open>The kernel's state\<close>

text \<open>
  One field per global variable the code cells assign, \<open>None\<close> until the assignment has
  run (reading it then raises \<^verbatim>\<open>NameError\<close>), and the log of effects.
\<close>

record ('m, 'fig) nb_state =
  R :: "real option"
  n_signals :: "nat option"
  DATA :: "string option"
  noisy_signals :: "real list list option"
  gw_signals :: "real list list option"
  labels :: "int list option"
  background_idx :: "nat option"
  signal_idx :: "nat option"
  ts_noise :: "real list option"
  ts_background :: "real list option"
  ts_signal :: "real list option"
  fig :: "'fig option"
  embedding_dimension :: "nat option"
  embedding_time_delay :: "nat option"
  stride :: "nat option"
  embedder :: "estimator option"
  y_gw_embedded :: "nd option"
  pca :: "estimator option"
  y_gw_embedded_pca :: "nd option"
  y_noise_embedded :: "nd option"
  y_noise_embedded_pca :: "nd option"
  batch_pca :: "estimator option"
  persistence :: "estimator option"
  scaling :: "estimator option"
  entropy :: "estimator option"
  steps :: "(string \<times> estimator) list option"
  topological_transfomer :: "pipeline option"
  features :: "nd option"
  X_train :: "nd option"
  X_valid :: "nd option"
  y_train :: "int list option"
  y_valid :: "int list option"
  model :: "'m classifier option"
  effects :: "event list"

definition kernel_start :: "('m, 'fig) nb_state" where
  "kernel_start =
     \<lparr>R = None, n_signals = None, DATA = None, noisy_signals = None, gw_signals = None,
      labels = None, background_idx = None, signal_idx = None, ts_noise = None,
      ts_background = None, ts_signal = None, fig = None, embedding_dimension = None,
      embedding_time_delay = None, stride = None, embedder = None, y_gw_embedded = None,
      pca = None, y_gw_embedded_pca = None, y_noise_embedded = None,
      y_noise_embedded_pca = None, batch_pca = None, persistence = None, scaling = None,
      entropy = None, steps = None, topological_transfomer = None, features = None,
      X_train = None, X_valid = None, y_train = None, y_valid = None, model = None,
      effects = []\<rparr>"

section \<open>Running code: state, effects and exceptions\<close>

type_synonym ('a, 'm, 'fig) nb = "('m, 'fig) nb_state \<Rightarrow> (exn + 'a) \<times> ('m, 'fig) nb_state"

definition nb_return :: "'a \<Rightarrow> ('a, 'm, 'fig) nb" where
  "nb_return x = (\<lambda>s. (Inr x, s))"

definition nb_lift :: "exn + 'a \<Rightarrow> ('a, 'm, 'fig) nb" where
  "nb_lift r = (\<lambda>s. (r, s))"

definition nb_bind :: "('a, 'm, 'fig) nb \<Rightarrow> ('a \<Rightarrow> ('b, 'm, 'fig) nb) \<Rightarrow> ('b, 'm, 'fig) nb" where
  "nb_bind m f = (\<lambda>s. case m s of (Inl e, s') \<Rightarrow> (Inl e, s') | (Inr x, s') \<Rightarrow> f x s')"

definition nb_emit :: "event \<Rightarrow> (unit, 'm, 'fig) nb" where
  "nb_emit ev = (\<lambda>s. (Inr (), s\<lparr>effects := effects s @ [ev]\<rparr>))"

text \<open>A library call: its result or exception is the library's; the log records which.\<close>

definition nb_call :: "operation \<Rightarrow> exn + 'a \<Rightarrow> ('a, 'm, 'fig) nb" where
  "nb_call opn r =
     (\<lambda>s. case r of
        Inl e \<Rightarrow> (Inl e, s\<lparr>effects := effects s @ [Call opn (Raised e)]\<rparr>)
      | Inr v \<Rightarrow> (Inr v, s\<lparr>effects := effects s @ [Call opn Returned]\<rparr>))"

definition nb_var :: "(('m, 'fig) nb_state \<Rightarrow> 'a option) \<Rightarrow> ('a, 'm, 'fig) nb" where
  "nb_var field = (\<lambda>s. case field s of None \<Rightarrow> (Inl NameError, s) | Some v \<Rightarrow> (Inr v, s))"

definition nb_assign ::
  "(('a option \<Rightarrow> 'a option) \<Rightarrow> ('m, 'fig) nb_state \<Rightarrow> ('m, 'fig) nb_state) \<Rightarrow>
   ('a, 'm, 'fig) nb \<Rightarrow> (unit, 'm, 'fig) nb" where
  "nb_assign upd rhs = nb_bind rhs (\<lambda>v s. (Inr (), upd (\<lambda>_. Some v) s))"

fun exec :: "(unit, 'm, 'fig) nb list \<Rightarrow> (unit, 'm, 'fig) nb" where
  "exec [] = nb_return ()"
| "exec (c # cs) = nb_bind c (\<lambda>_. exec cs)"

text \<open>\<^verbatim>\<open>xs[i]\<close> for a non-negative index.\<close>

definition getitem :: "'a list \<Rightarrow> nat \<Rightarrow> exn + 'a" where
  "getitem xs i = (if i < length xs then Inr (xs ! i) else Inl IndexError)"

text \<open>\<^verbatim>\<open>a[:, 1]\<close> on the rows of a two-dimensional array.\<close>

definition column1 :: "real list list \<Rightarrow> exn + real list" where
  "column1 rows = (if list_all (\<lambda>r. 1 < length r) rows then Inr (map (\<lambda>r. r ! 1) rows) else Inl IndexError)"

text \<open>\<^verbatim>\<open>round(v, ndigits)\<close>: the nearest multiple of \<open>10 ^ -ndigits\<close>, ties to the even one.\<close>

definition round_half_even :: "real \<Rightarrow> int" where
  "round_half_even x =
     (let f = \<lfloor>x\<rfloor>; d = x - of_int f
      in if d < 1 / 2 then f else if 1 / 2 < d then f + 1 else if even f then f else f + 1)"

fun py_round :: "pyfloat \<Rightarrow> nat \<Rightarrow> pyfloat" where
  "py_round (Fin v) ndigits = Fin (of_int (round_half_even (v * 10 ^ ndigits)) / 10 ^ ndigits)"
| "py_round NaN ndigits = NaN"

section \<open>Code of the repository that the notebook imports\<close>

text \<open>
  Modelled from the spec: \<^verbatim>\<open>data.generate_datasets.make_gravitational_waves\<close> is imported
  by the notebook and is not among the source files. The spec gives its interface only:
  it takes a path, a signal count and the SNR range parameters and returns three parallel
  collections, the noisy time series, the ground-truth gravitational-wave signals and a
  binary label per series. What it reads and draws is the parameter \<open>samples\<close>: one
  sample per generated series; the label is 1 when a signal is present in the series.
\<close>

definition label_of :: "sample \<Rightarrow> int" where
  "label_of x = (if present x then 1 else 0)"

definition make_gravitational_waves ::
  "('m, 'fig) lib \<Rightarrow> string \<Rightarrow> nat \<Rightarrow> real \<Rightarrow> real \<Rightarrow> nat \<Rightarrow>
   exn + (real list list \<times> real list list \<times> int list)" where
  "make_gravitational_waves lib path_to_data n r_min r_max n_snr_values =
     (case samples lib path_to_data n r_min r_max n_snr_values of
        Inl e \<Rightarrow> Inl e
      | Inr ss \<Rightarrow> Inr (map noisy ss, map gw ss, map label_of ss))"

text \<open>
  Modelled from the spec: \<^verbatim>\<open>gtda.pipeline.Pipeline\<close> is not among the source files. The
  spec describes it as linear pipeline chaining: \<^verbatim>\<open>fit_transform\<close> of the pipeline runs
  \<^verbatim>\<open>fit_transform\<close> of each step in the order of the list, on the previous step's output.
\<close>

fun pipeline_steps :: "('m, 'fig) lib \<Rightarrow> (string \<times> estimator) list \<Rightarrow> nd \<Rightarrow> (nd, 'm, 'fig) nb" where
  "pipeline_steps lib [] X = nb_return X"
| "pipeline_steps lib (st # rest) X =
     nb_bind (nb_call (FitTransform (snd st)) (fit_transform lib (snd st) X)) (pipeline_steps lib rest)"

fun pipeline_fit_transform :: "('m, 'fig) lib \<Rightarrow> pipeline \<Rightarrow> nd \<Rightarrow> (nd, 'm, 'fig) nb" where
  "pipeline_fit_transform lib (Pipeline sts) X = pipeline_steps lib sts X"

section \<open>The code cells\<close>

text \<open>
  Each code cell is the list of its statements, in the order of the source; \<open>exec\<close> runs
  a list of statements until one raises. A right-hand
  side reads its variables left to right, as Python evaluates it. A constructor call is
  the value it builds; a method that fits an object in place and returns a result is the
  library function applied to the object's configuration.
\<close>

text \<open>\<^verbatim>\<open>YouTubeVideo("Y3eR49ogsF0", width=600, height=400)\<close>, shown as the cell's output.\<close>

definition cell_video1 :: "('m, 'fig) lib \<Rightarrow> (unit, 'm, 'fig) nb list" where
  "cell_video1 lib =
    [nb_bind (nb_call (YouTubeVideo ''Y3eR49ogsF0'' 600 400) (youtube_video lib ''Y3eR49ogsF0'' 600 400))
       (\<lambda>_. nb_emit Display)]"

definition cell_video2 :: "('m, 'fig) lib \<Rightarrow> (unit, 'm, 'fig) nb list" where
  "cell_video2 lib =
    [nb_bind (nb_call (YouTubeVideo ''QyDcTbR-kEA'' 600 400) (youtube_video lib ''QyDcTbR-kEA'' 600 400))
       (\<lambda>_. nb_emit Display)]"

text \<open>
  \<^verbatim>\<open>R = 0.65; n_signals = 100; DATA = Path("./data")\<close>, the call of the generator with
  \<^verbatim>\<open>path_to_data=DATA, n_signals=n_signals, r_min=R, r_max=R, n_snr_values=1\<close>, unpacked
  into three names, and the two \<^verbatim>\<open>print\<close> statements.
\<close>

definition generate_stmt :: "('m, 'fig) lib \<Rightarrow> (unit, 'm, 'fig) nb" where
  "generate_stmt lib =
     nb_bind (nb_var DATA) (\<lambda>path_to_data.
     nb_bind (nb_var n_signals) (\<lambda>n.
     nb_bind (nb_var R) (\<lambda>r_min.
     nb_bind (nb_var R) (\<lambda>r_max.
     nb_bind (nb_call (MakeGravitationalWaves path_to_data n r_min r_max 1)
                (make_gravitational_waves lib path_to_data n r_min r_max 1)) (\<lambda>(a, b, c).
       exec [nb_assign noisy_signals_update (nb_return a),
             nb_assign gw_signals_update (nb_return b),
             nb_assign labels_update (nb_return c)])))))"

definition cell_generate :: "('m, 'fig) lib \<Rightarrow> (unit, 'm, 'fig) nb list" where
  "cell_generate lib =
     [nb_assign R_update (nb_return (65 / 100)),
      nb_assign n_signals_update (nb_return 100),
      nb_assign DATA_update (nb_return ''./data''),
      generate_stmt lib,
      nb_bind (nb_var noisy_signals) (\<lambda>xs.
        nb_emit (Print ''Number of noisy signals: '' (PNat (length xs)))),
      nb_bind (nb_var noisy_signals) (\<lambda>xs.
      nb_bind (nb_lift (getitem xs 0)) (\<lambda>x.
        nb_emit (Print ''Number of timesteps per series: '' (PNat (length x)))))]"

text \<open>
  \<^verbatim>\<open>fig.add_trace(go.Scatter(x=list(range(len(ts))), y=ts, mode="lines", name=...), row=.., col=..)\<close>:
  \<open>line_trace\<close> is the \<^verbatim>\<open>go.Scatter\<close> object; the figure is changed in place, so \<open>fig\<close> holds
  the figure with the trace added.
\<close>

definition line_trace :: "real list \<Rightarrow> string \<Rightarrow> scatter" where
  "line_trace y name = \<lparr>sc_x = [0..<length y], sc_y = y, sc_mode = ''lines'', sc_name = name\<rparr>"

definition add_trace_stmt ::
  "('m, 'fig) lib \<Rightarrow> (('m, 'fig) nb_state \<Rightarrow> real list option) \<Rightarrow> string \<Rightarrow> nat \<Rightarrow> nat \<Rightarrow>
   (unit, 'm, 'fig) nb" where
  "add_trace_stmt lib ts name row col =
     nb_assign fig_update
       (nb_bind (nb_var fig) (\<lambda>f.
        nb_bind (nb_var ts) (\<lambda>y.
          nb_call (AddTrace name row col) (add_trace lib f (line_trace y name) row col))))"

definition cell_visualise :: "('m, 'fig) lib \<Rightarrow> (unit, 'm, 'fig) nb list" where
  "cell_visualise lib =
     [nb_assign background_idx_update
        (nb_bind (nb_var labels) (\<lambda>ls. nb_call Argmin (argmin lib ls))),
      nb_assign signal_idx_update
        (nb_bind (nb_var labels) (\<lambda>ls. nb_call Argmax (argmax lib ls))),
      nb_assign ts_noise_update
        (nb_bind (nb_var noisy_signals) (\<lambda>xs.
         nb_bind (nb_var background_idx) (\<lambda>i. nb_lift (getitem xs i)))),
      nb_assign ts_background_update
        (nb_bind (nb_var noisy_signals) (\<lambda>xs.
         nb_bind (nb_var signal_idx) (\<lambda>i. nb_lift (getitem xs i)))),
      nb_assign ts_signal_update
        (nb_bind (nb_var gw_signals) (\<lambda>xs.
         nb_bind (nb_var signal_idx) (\<lambda>i. nb_lift (getitem xs i)))),
      nb_assign fig_update (nb_call (MakeSubplots 1 2) (make_subplots lib 1 2)),
      add_trace_stmt lib ts_noise ''noise'' 1 1,
      add_trace_stmt lib ts_background ''background'' 1 2,
      add_trace_stmt lib ts_signal ''signal'' 1 2,
      nb_bind (nb_var fig) (\<lambda>f. nb_call FigShow (fig_show lib f))]"

text \<open>
  The three assignments of the embedding parameters and
  \<^verbatim>\<open>embedder = SingleTakensEmbedding(parameters_type="search", n_jobs=6, time_delay=.., dimension=.., stride=..)\<close>,
  which open two cells.
\<close>

definition single_embedder_stmts :: "(unit, 'm, 'fig) nb list" where
  "single_embedder_stmts =
     [nb_assign embedding_dimension_update (nb_return 30),
      nb_assign embedding_time_delay_update (nb_return 30),
      nb_assign stride_update (nb_return 5),
      nb_assign embedder_update
        (nb_bind (nb_var embedding_time_delay) (\<lambda>time_delay.
         nb_bind (nb_var embedding_dimension) (\<lambda>dimension.
         nb_bind (nb_var stride) (\<lambda>strd.
           nb_return (SingleTakensEmbedding ''search'' 6 time_delay dimension strd)))))]"

definition cell_embed_signal :: "('m, 'fig) lib \<Rightarrow> (unit, 'm, 'fig) nb list" where
  "cell_embed_signal lib =
      single_embedder_stmts @
      [nb_assign y_gw_embedded_update
         (nb_bind (nb_var embedder) (\<lambda>e.
          nb_bind (nb_var gw_signals) (\<lambda>xs.
          nb_bind (nb_lift (getitem xs 0)) (\<lambda>x.
            nb_call (FitTransform e) (fit_transform lib e (of_series x))))))]"

definition cell_pca_signal :: "('m, 'fig) lib \<Rightarrow> (unit, 'm, 'fig) nb list" where
  "cell_pca_signal lib =
     [nb_assign pca_update (nb_return (PCA 3)),
      nb_assign y_gw_embedded_pca_update
        (nb_bind (nb_var pca) (\<lambda>p.
         nb_bind (nb_var y_gw_embedded) (\<lambda>y.
           nb_call (FitTransform p) (fit_transform lib p y)))),
      nb_bind (nb_var y_gw_embedded_pca) (\<lambda>y.
      nb_bind (nb_call PlotPointCloud (plot_point_cloud lib y)) (\<lambda>_. nb_emit Display))]"

definition cell_embed_noise :: "('m, 'fig) lib \<Rightarrow> (unit, 'm, 'fig) nb list" where
  "cell_embed_noise lib =
      single_embedder_stmts @
      [nb_assign y_noise_embedded_update
         (nb_bind (nb_var embedder) (\<lambda>e.
          nb_bind (nb_var noisy_signals) (\<lambda>xs.
          nb_bind (nb_var background_idx) (\<lambda>i.
          nb_bind (nb_lift (getitem xs i)) (\<lambda>x.
            nb_call (FitTransform e) (fit_transform lib e (of_series x))))))),
       nb_assign pca_update (nb_return (PCA 3)),
       nb_assign y_noise_embedded_pca_update
         (nb_bind (nb_var pca) (\<lambda>p.
          nb_bind (nb_var y_noise_embedded) (\<lambda>y.
            nb_call (FitTransform p) (fit_transform lib p y)))),
       nb_bind (nb_var y_noise_embedded_pca) (\<lambda>y.
       nb_bind (nb_call PlotPointCloud (plot_point_cloud lib y)) (\<lambda>_. nb_emit Display))]"

definition cell_define_pipeline :: "(unit, 'm, 'fig) nb list" where
  "cell_define_pipeline =
     [nb_assign embedding_dimension_update (nb_return 200),
      nb_assign embedding_time_delay_update (nb_return 10),
      nb_assign stride_update (nb_return 10),
      nb_assign embedder_update
        (nb_bind (nb_var embedding_time_delay) (\<lambda>time_delay.
         nb_bind (nb_var embedding_dimension) (\<lambda>dimension.
         nb_bind (nb_var stride) (\<lambda>strd.
           nb_return (TakensEmbedding time_delay dimension strd))))),
      nb_assign batch_pca_update (nb_return (CollectionTransformer (PCA 3) (- 1))),
      nb_assign persistence_update (nb_return (VietorisRipsPersistence [0, 1] (- 1))),
      nb_assign scaling_update (nb_return Scaler),
      nb_assign entropy_update (nb_return (PersistenceEntropy True (- 10))),
      nb_assign steps_update
        (nb_bind (nb_var embedder) (\<lambda>e.
         nb_bind (nb_var batch_pca) (\<lambda>p.
         nb_bind (nb_var persistence) (\<lambda>h.
         nb_bind (nb_var scaling) (\<lambda>sc.
         nb_bind (nb_var entropy) (\<lambda>en.
           nb_return [(''embedder'', e), (''pca'', p), (''persistence'', h),
                      (''scaling'', sc), (''entropy'', en)])))))),
      nb_assign topological_transfomer_update
        (nb_bind (nb_var steps) (\<lambda>sts. nb_return (Pipeline sts)))]"

text \<open>\<^verbatim>\<open>features = topological_transfomer.fit_transform(noisy_signals)\<close>\<close>

definition cell_features :: "('m, 'fig) lib \<Rightarrow> (unit, 'm, 'fig) nb list" where
  "cell_features lib =
    [nb_assign features_update
       (nb_bind (nb_var topological_transfomer) (\<lambda>t.
        nb_bind (nb_var noisy_signals) (\<lambda>xs.
          pipeline_fit_transform lib t (of_collection xs))))]"

text \<open>
  \<^verbatim>\<open>X_train, X_valid, y_train, y_valid = train_test_split(features, labels, test_size=0.1, random_state=42)\<close>
\<close>

definition cell_split :: "('m, 'fig) lib \<Rightarrow> (unit, 'm, 'fig) nb list" where
  "cell_split lib =
    [nb_bind (nb_var features) (\<lambda>X.
     nb_bind (nb_var labels) (\<lambda>y.
     nb_bind (nb_call (TrainTestSplit (1 / 10) 42) (train_test_split lib X y (1 / 10) 42))
       (\<lambda>(a, b, c, d).
        exec [nb_assign X_train_update (nb_return a),
              nb_assign X_valid_update (nb_return b),
              nb_assign y_train_update (nb_return c),
              nb_assign y_valid_update (nb_return d)])))]"

text \<open>
  The methods of a classifier object. \<^verbatim>\<open>predict\<close> and \<^verbatim>\<open>predict_proba\<close> of an object
  that was never fitted raise \<^verbatim>\<open>NotFittedError\<close>; that is the library's doing, so it is
  the outcome of the call.
\<close>

definition model_predict :: "('m, 'fig) lib \<Rightarrow> 'm classifier \<Rightarrow> nd \<Rightarrow> exn + int list" where
  "model_predict lib fitted_model X =
     (case fitted_model of
        Classifier est None \<Rightarrow> Inl NotFittedError
      | Classifier est (Some p) \<Rightarrow> predict lib p X)"

definition model_predict_proba ::
  "('m, 'fig) lib \<Rightarrow> 'm classifier \<Rightarrow> nd \<Rightarrow> exn + real list list" where
  "model_predict_proba lib fitted_model X =
     (case fitted_model of
        Classifier est None \<Rightarrow> Inl NotFittedError
      | Classifier est (Some p) \<Rightarrow> predict_proba lib p X)"

text \<open>\<^verbatim>\<open>for k, v in res.items(): print(k, round(v, 3))\<close>\<close>

fun print_items :: "(string \<times> pyfloat) list \<Rightarrow> (unit, 'm, 'fig) nb" where
  "print_items [] = nb_return ()"
| "print_items (kv # kvs) =
     nb_bind (nb_emit (Print (fst kv) (PFloat (py_round (snd kv) 3)))) (\<lambda>_. print_items kvs)"

text \<open>
  \<^verbatim>\<open>print_scores(fitted_model)\<close>: the dictionary \<open>res\<close> is built entry by entry, in the order
  of the source (a dictionary keeps the order of insertion, and a repeated key keeps its
  place), then printed. \<open>X_train\<close>, \<open>y_train\<close>, \<open>X_valid\<close> and \<open>y_valid\<close> are the globals.
\<close>

definition print_scores :: "('m, 'fig) lib \<Rightarrow> 'm classifier \<Rightarrow> (unit, 'm, 'fig) nb" where
  "print_scores lib fitted_model =
     nb_bind
       (nb_bind (nb_var X_train) (\<lambda>X.
        nb_bind (nb_call Predict (model_predict lib fitted_model X)) (\<lambda>p.
        nb_bind (nb_var y_train) (\<lambda>y.
          nb_call AccuracyScore (accuracy_score lib p y))))) (\<lambda>v1.
     nb_bind
       (nb_bind (nb_var y_train) (\<lambda>y.
        nb_bind (nb_var X_train) (\<lambda>X.
        nb_bind (nb_call PredictProba (model_predict_proba lib fitted_model X)) (\<lambda>pp.
        nb_bind (nb_lift (column1 pp)) (\<lambda>sc.
          nb_call RocAucScore (roc_auc_score lib y sc)))))) (\<lambda>v2.
     nb_bind
       (nb_bind (nb_var X_valid) (\<lambda>X.
        nb_bind (nb_call Predict (model_predict lib fitted_model X)) (\<lambda>p.
        nb_bind (nb_var y_valid) (\<lambda>y.
          nb_call AccuracyScore (accuracy_score lib p y))))) (\<lambda>v3.
     nb_bind
       (nb_bind (nb_var y_valid) (\<lambda>y.
        nb_bind (nb_var X_valid) (\<lambda>X.
        nb_bind (nb_call PredictProba (model_predict_proba lib fitted_model X)) (\<lambda>pp.
        nb_bind (nb_lift (column1 pp)) (\<lambda>sc.
          nb_call RocAucScore (roc_auc_score lib y sc)))))) (\<lambda>v4.
       print_items
         (AList.update ''ROC AUC on valid:'' v4
         (AList.update ''Accuracy on valid:'' v3
         (AList.update ''ROC AUC on train:'' v2
         (AList.update ''Accuracy on train:'' v1 []))))))))"

text \<open>The cell that defines \<^verbatim>\<open>print_scores\<close> has no other statement.\<close>

definition cell_define_print_scores :: "(unit, 'm, 'fig) nb list" where
  "cell_define_print_scores = []"

text \<open>\<^verbatim>\<open>model = LogisticRegression(); model.fit(X_train, y_train); print_scores(model)\<close>\<close>

definition cell_train :: "('m, 'fig) lib \<Rightarrow> (unit, 'm, 'fig) nb list" where
  "cell_train lib =
     [nb_assign model_update (nb_return (Classifier LogisticRegression None)),
      nb_assign model_update
        (nb_bind (nb_var model) (\<lambda>c.
         nb_bind (nb_var X_train) (\<lambda>X.
         nb_bind (nb_var y_train) (\<lambda>y.
           case c of Classifier est _ \<Rightarrow>
             nb_bind (nb_call (Fit est) (fit lib est X y)) (\<lambda>p.
               nb_return (Classifier est (Some p))))))),
      nb_bind (nb_var model) (\<lambda>c. print_scores lib c)]"

section \<open>The notebook, run top to bottom\<close>

definition notebook :: "('m, 'fig) lib \<Rightarrow> (unit, 'm, 'fig) nb list" where
  "notebook lib =
     cell_video1 lib @ cell_video2 lib @ cell_generate lib @ cell_visualise lib @
     cell_embed_signal lib @ cell_pca_signal lib @ cell_embed_noise lib @
     cell_define_pipeline @ cell_features lib @ cell_split lib @
     cell_define_print_scores @ cell_train lib"

definition run_notebook :: "('m, 'fig) lib \<Rightarrow> (exn + unit) \<times> ('m, 'fig) nb_state" where
  "run_notebook lib = exec (notebook lib) kernel_start"

text \<open>The state after the first \<open>k\<close> statements (or where one of them raised).\<close>

definition state_at :: "('m, 'fig) lib \<Rightarrow> nat \<Rightarrow> ('m, 'fig) nb_state" where
  "state_at lib k = snd (exec (take k (notebook lib)) kernel_start)"

section \<open>What a run does, in order\<close>

text \<open>An effect without the values that depend on the libraries' results.\<close>

datatype action = Calls operation | Prints string | Displays | Writes string

fun action_of :: "event \<Rightarrow> action" where
  "action_of (Call opn oc) = Calls opn"
| "action_of (Print k v) = Prints k"
| "action_of Display = Displays"
| "action_of (WriteFile path) = Writes path"

fun call_of :: "action \<Rightarrow> operation list" where
  "call_of (Calls opn) = [opn]"
| "call_of a = []"

fun calls :: "event list \<Rightarrow> operation list" where
  "calls [] = []"
| "calls (Call opn oc # es) = opn # calls es"
| "calls (Print k v # es) = calls es"
| "calls (Display # es) = calls es"
| "calls (WriteFile path # es) = calls es"

fun raised :: "event list \<Rightarrow> exn list" where
  "raised [] = []"
| "raised (Call opn (Raised e) # es) = e # raised es"
| "raised (Call opn Returned # es) = raised es"
| "raised (Print k v # es) = raised es"
| "raised (Display # es) = raised es"
| "raised (WriteFile path # es) = raised es"

fun printed_lines :: "event list \<Rightarrow> (string \<times> printed) list" where
  "printed_lines [] = []"
| "printed_lines (Print k v # es) = (k, v) # printed_lines es"
| "printed_lines (Call opn oc # es) = printed_lines es"
| "printed_lines (Display # es) = printed_lines es"
| "printed_lines (WriteFile path # es) = printed_lines es"

text \<open>The five steps the notebook puts into its \<^verbatim>\<open>Pipeline\<close>.\<close>

definition topological_steps :: "(string \<times> estimator) list" where
  "topological_steps =
     [(''embedder'', TakensEmbedding 10 200 10),
      (''pca'', CollectionTransformer (PCA 3) (- 1)),
      (''persistence'', VietorisRipsPersistence [0, 1] (- 1)),
      (''scaling'', Scaler),
      (''entropy'', PersistenceEntropy True (- 10))]"

text \<open>The effects of a run in which nothing raises.\<close>

definition notebook_actions :: "action list" where
  "notebook_actions =
     [Calls (YouTubeVideo ''Y3eR49ogsF0'' 600 400), Displays,
      Calls (YouTubeVideo ''QyDcTbR-kEA'' 600 400), Displays,
      Calls (MakeGravitationalWaves ''./data'' 100 (65 / 100) (65 / 100) 1),
      Prints ''Number of noisy signals: '',
      Prints ''Number of timesteps per series: '',
      Calls Argmin, Calls Argmax,
      Calls (MakeSubplots 1 2),
      Calls (AddTrace ''noise'' 1 1), Calls (AddTrace ''background'' 1 2),
      Calls (AddTrace ''signal'' 1 2), Calls FigShow,
      Calls (FitTransform (SingleTakensEmbedding ''search'' 6 30 30 5)),
      Calls (FitTransform (PCA 3)), Calls PlotPointCloud, Displays,
      Calls (FitTransform (SingleTakensEmbedding ''search'' 6 30 30 5)),
      Calls (FitTransform (PCA 3)), Calls PlotPointCloud, Displays,
      Calls (FitTransform (TakensEmbedding 10 200 10)),
      Calls (FitTransform (CollectionTransformer (PCA 3) (- 1))),
      Calls (FitTransform (VietorisRipsPersistence [0, 1] (- 1))),
      Calls (FitTransform Scaler),
      Calls (FitTransform (PersistenceEntropy True (- 10))),
      Calls (TrainTestSplit (1 / 10) 42),
      Calls (Fit LogisticRegression),
      Calls Predict, Calls AccuracyScore, Calls PredictProba, Calls RocAucScore,
      Calls Predict, Calls AccuracyScore, Calls PredictProba, Calls RocAucScore,
      Prints ''Accuracy on train:'', Prints ''ROC AUC on train:'',
      Prints ''Accuracy on valid:'', Prints ''ROC AUC on valid:'']"

text \<open>
  The stages the spec lists, in the order in which it lists them, and the stage each
  library operation belongs to (the video display, \<^verbatim>\<open>argmin\<close>/\<^verbatim>\<open>argmax\<close> and the two
  metrics are not in the spec's list).
\<close>

datatype stage =
    DataGeneration | Embedding | Pca | PersistentHomology | EntropyScaling
  | TrainTestSplitting | Classification | Plotting

fun stage_rank :: "stage \<Rightarrow> nat" where
  "stage_rank DataGeneration = 0"
| "stage_rank Embedding = 1"
| "stage_rank Pca = 2"
| "stage_rank PersistentHomology = 3"
| "stage_rank EntropyScaling = 4"
| "stage_rank TrainTestSplitting = 5"
| "stage_rank Classification = 6"
| "stage_rank Plotting = 7"

fun stage_of :: "operation \<Rightarrow> stage option" where
  "stage_of (MakeGravitationalWaves p n a b k) = Some DataGeneration"
| "stage_of (FitTransform (SingleTakensEmbedding t j a b c)) = Some Embedding"
| "stage_of (FitTransform (TakensEmbedding a b c)) = Some Embedding"
| "stage_of (FitTransform (PCA n)) = Some Pca"
| "stage_of (FitTransform (CollectionTransformer (PCA n) j)) = Some Pca"
| "stage_of (FitTransform (VietorisRipsPersistence ds j)) = Some PersistentHomology"
| "stage_of (FitTransform Scaler) = Some EntropyScaling"
| "stage_of (FitTransform (PersistenceEntropy b v)) = Some EntropyScaling"
| "stage_of (TrainTestSplit a b) = Some TrainTestSplitting"
| "stage_of (Fit est) = Some Classification"
| "stage_of Predict = Some Classification"
| "stage_of PredictProba = Some Classification"
| "stage_of (MakeSubplots a b) = Some Plotting"
| "stage_of (AddTrace n a b) = Some Plotting"
| "stage_of FigShow = Some Plotting"
| "stage_of PlotPointCloud = Some Plotting"
| "stage_of opn = None"

definition stages :: "event list \<Rightarrow> stage list" where
  "stages es = List.map_filter stage_of (calls es)"

text \<open>The order as the spec states it: no stage is followed by an earlier one.\<close>

definition in_listed_order :: "stage list \<Rightarrow> bool" where
  "in_listed_order sts = sorted (map stage_rank sts)"

definition notebook_stages :: "stage list" where
  "notebook_stages =
     [DataGeneration,
      Plotting, Plotting, Plotting, Plotting, Plotting,
      Embedding, Pca, Plotting,
      Embedding, Pca, Plotting,
      Embedding, Pca, PersistentHomology, EntropyScaling, EntropyScaling,
      TrainTestSplitting,
      Classification, Classification, Classification, Classification, Classification]"

section \<open>Third-party functions, from their documentation\<close>

text \<open>
  \<^verbatim>\<open>numpy.argmin\<close> and \<^verbatim>\<open>numpy.argmax\<close> are not part of the repository. Their
  documentation: the index of the minimum (maximum); where it occurs more than once, the
  index of its first occurrence; an empty array raises \<^verbatim>\<open>ValueError\<close>.
\<close>

fun first_index :: "int list \<Rightarrow> int \<Rightarrow> nat" where
  "first_index [] v = 0"
| "first_index (x # xs) v = (if x = v then 0 else Suc (first_index xs v))"

definition np_argmin :: "int list \<Rightarrow> exn + nat" where
  "np_argmin a = (case a of [] \<Rightarrow> Inl ValueError | x # xs \<Rightarrow> Inr (first_index a (fold min xs x)))"

definition np_argmax :: "int list \<Rightarrow> exn + nat" where
  "np_argmax a = (case a of [] \<Rightarrow> Inl ValueError | x # xs \<Rightarrow> Inr (first_index a (fold max xs x)))"

text \<open>
  \<^verbatim>\<open>sklearn.metrics.accuracy_score(y_true, y_pred)\<close> is not part of the repository. Its
  documentation: the fraction of samples whose predicted label equals the true one;
  inputs of different lengths raise \<^verbatim>\<open>ValueError\<close>. The fraction is the mean of the
  element-wise comparison, which is NaN for no samples.
\<close>

definition sk_accuracy_score :: "int list \<Rightarrow> int list \<Rightarrow> exn + pyfloat" where
  "sk_accuracy_score y_true y_pred =
     (if length y_true \<noteq> length y_pred then Inl ValueError
      else if y_true = [] then Inr NaN
      else Inr (Fin (real (length (filter (\<lambda>(t, p). t = p) (zip y_true y_pred)))
                     / real (length y_true))))"

text \<open>
  \<^verbatim>\<open>sklearn.metrics.roc_auc_score(y_true, y_score)\<close> is not part of the repository. Its
  documentation, for the releases the notebook was written for: the area under the ROC
  curve of the scores, the class with the greater label being the positive one; labels of
  a single class raise \<^verbatim>\<open>ValueError\<close>, and so do more than two classes with
  one-dimensional scores, and inputs of different lengths. The area under the ROC curve is
  the share of the pairs of a positive and a negative sample that the scores put in the
  right order, a tie counting for a half.
\<close>

definition pair_credit :: "real \<Rightarrow> real \<Rightarrow> real" where
  "pair_credit p n = (if n < p then 1 else if p = n then 1 / 2 else 0)"

definition sk_roc_auc_score :: "int list \<Rightarrow> real list \<Rightarrow> exn + pyfloat" where
  "sk_roc_auc_score y_true y_score =
     (if length y_true \<noteq> length y_score \<or> length (remdups y_true) \<noteq> 2 then Inl ValueError
      else
        let positive = fold max y_true (hd y_true);
            pos = map snd (filter (\<lambda>(t, s). t = positive) (zip y_true y_score));
            neg = map snd (filter (\<lambda>(t, s). t \<noteq> positive) (zip y_true y_score))
        in Inr (Fin (sum_list (map (\<lambda>p. sum_list (map (pair_credit p) neg)) pos)
                     / real (length pos * length neg))))"

text \<open>
  \<^verbatim>\<open>print_scores\<close> as it would read with the documented argument order,
  \<^verbatim>\<open>accuracy_score(y_train, fitted_model.predict(X_train))\<close>: the true labels first.
\<close>

definition print_scores_conventional :: "('m, 'fig) lib \<Rightarrow> 'm classifier \<Rightarrow> (unit, 'm, 'fig) nb" where
  "print_scores_conventional lib fitted_model =
     nb_bind
       (nb_bind (nb_var y_train) (\<lambda>y.
        nb_bind (nb_var X_train) (\<lambda>X.
        nb_bind (nb_call Predict (model_predict lib fitted_model X)) (\<lambda>p.
          nb_call AccuracyScore (accuracy_score lib y p))))) (\<lambda>v1.
     nb_bind
       (nb_bind (nb_var y_train) (\<lambda>y.
        nb_bind (nb_var X_train) (\<lambda>X.
        nb_bind (nb_call PredictProba (model_predict_proba lib fitted_model X)) (\<lambda>pp.
        nb_bind (nb_lift (column1 pp)) (\<lambda>sc.
          nb_call RocAucScore (roc_auc_score lib y sc)))))) (\<lambda>v2.
     nb_bind
       (nb_bind (nb_var y_valid) (\<lambda>y.
        nb_bind (nb_var X_valid) (\<lambda>X.
        nb_bind (nb_call Predict (model_predict lib fitted_model X)) (\<lambda>p.
          nb_call AccuracyScore (accuracy_score lib y p))))) (\<lambda>v3.
     nb_bind
       (nb_bind (nb_var y_valid) (\<lambda>y.
        nb_bind (nb_var X_valid) (\<lambda>X.
        nb_bind (nb_call PredictProba (model_predict_proba lib fitted_model X)) (\<lambda>pp.
        nb_bind (nb_lift (column1 pp)) (\<lambda>sc.
          nb_call RocAucScore (roc_auc_score lib y sc)))))) (\<lambda>v4.
       print_items
         (AList.update ''ROC AUC on valid:'' v4
         (AList.update ''Accuracy on valid:'' v3
         (AList.update ''ROC AUC on train:'' v2
         (AList.update ''Accuracy on train:'' v1 []))))))))"

section \<open>Libraries to run the notebook on\<close>

text \<open>
  A small library in which every call returns: two generated series of three time steps,
  transformers that hand their input on, a split that returns everything twice.
\<close>

definition demo_lib :: "(unit, unit) lib" where
  "demo_lib =
     \<lparr>youtube_video = (\<lambda>_ _ _. Inr ()),
      samples = (\<lambda>_ _ _ _ _.
        Inr [\<lparr>noisy = [1, 2, 3], gw = [0, 0, 0], present = False\<rparr>,
             \<lparr>noisy = [2, 4, 3], gw = [1, 2, 0], present = True\<rparr>]),
      argmin = np_argmin,
      argmax = np_argmax,
      make_subplots = (\<lambda>_ _. Inr ()),
      add_trace = (\<lambda>_ _ _ _. Inr ()),
      fig_show = (\<lambda>_. Inr ()),
      fit_transform = (\<lambda>_ X. Inr X),
      plot_point_cloud = (\<lambda>_. Inr ()),
      train_test_split = (\<lambda>X y _ _. Inr (X, X, y, y)),
      fit = (\<lambda>_ _ _. Inr ()),
      predict = (\<lambda>_ _. Inr [0, 0]),
      predict_proba = (\<lambda>_ _. Inr [[3 / 4, 1 / 4], [1 / 3, 2 / 3]]),
      accuracy_score = sk_accuracy_score,
      roc_auc_score = (\<lambda>_ _. Inr (Fin 1))\<rparr>"

text \<open>The same library, except that the persistent-homology step raises.\<close>

definition failing_lib :: "(unit, unit) lib" where
  "failing_lib =
     demo_lib\<lparr>fit_transform :=
       (\<lambda>est X. case est of
          VietorisRipsPersistence ds j \<Rightarrow> Inl (Exception ''out of memory'')
        | _ \<Rightarrow> Inr X)\<rparr>"

text \<open>The first library, with the documented \<^verbatim>\<open>roc_auc_score\<close>.\<close>

definition scored_lib :: "(unit, unit) lib" where
  "scored_lib = demo_lib\<lparr>roc_auc_score := sk_roc_auc_score\<rparr>"

text \<open>A fitted classifier, and a state in which the four globals of \<^verbatim>\<open>print_scores\<close> are assigned.\<close>

definition demo_fitted :: "unit classifier" where
  "demo_fitted = Classifier LogisticRegression (Some ())"

definition demo_state :: "(unit, unit) nb_state" where
  "demo_state =
     kernel_start\<lparr>X_train := Some (Arr [Arr [Num 1], Arr [Num 2]]),
                  X_valid := Some (Arr [Arr [Num 3], Arr [Num 4]]),
                  y_train := Some [0, 1], y_valid := Some [0, 0]\<rparr>"

text \<open>A state in which four series have been generated, with the given labels.\<close>

definition labelled_state :: "int list \<Rightarrow> (unit, unit) nb_state" where
  "labelled_state ls =
     kernel_start\<lparr>noisy_signals := Some [[1, 2], [3, 4], [5, 6], [7, 8]],
                  gw_signals := Some [[0, 1], [1, 0], [0, 0], [1, 1]],
                  labels := Some ls\<rparr>"

section \<open>Reasoning about runs\<close>

text \<open>
  \<open>wp m Q E s\<close>: running \<open>m\<close> from \<open>s\<close> either returns a value and a state that satisfy
  \<open>Q\<close>, or raises an exception and leaves a state that satisfies \<open>E\<close>.
\<close>

definition wp ::
  "('a, 'm, 'fig) nb \<Rightarrow> ('a \<Rightarrow> ('m, 'fig) nb_state \<Rightarrow> bool) \<Rightarrow>
   (exn \<Rightarrow> ('m, 'fig) nb_state \<Rightarrow> bool) \<Rightarrow> ('m, 'fig) nb_state \<Rightarrow> bool" where
  "wp m Q E s = (case m s of (Inl e, s') \<Rightarrow> E e s' | (Inr x, s') \<Rightarrow> Q x s')"

text \<open>\<open>preserves g m\<close>: \<open>m\<close> never changes the part \<open>g\<close> of the state, whether it raises or not.\<close>

definition preserves :: "(('m, 'fig) nb_state \<Rightarrow> 'b) \<Rightarrow> ('a, 'm, 'fig) nb \<Rightarrow> bool" where
  "preserves g m = (\<forall>s. g (snd (m s)) = g s)"

text \<open>The three collections the generator returned, as far as they are assigned.\<close>

definition dataset ::
  "('m, 'fig) nb_state \<Rightarrow> real list list option \<times> real list list option \<times> int list option" where
  "dataset s = (noisy_signals s, gw_signals s, labels s)"

definition parallel_binary :: "real list list \<Rightarrow> real list list \<Rightarrow> int list \<Rightarrow> bool" where
  "parallel_binary a b c \<longleftrightarrow>
     length a = length b \<and> length b = length c \<and> list_all (\<lambda>l. l = 0 \<or> l = 1) c"

text \<open>\<open>g\<close> does not depend on the log.\<close>

definition ignores_log :: "(('m, 'fig) nb_state \<Rightarrow> 'b) \<Rightarrow> bool" where
  "ignores_log g = (\<forall>s es. g (s\<lparr>effects := es\<rparr>) = g s)"

text \<open>The global variables, that is, the state without its log.\<close>

definition variables :: "('m, 'fig) nb_state \<Rightarrow> ('m, 'fig) nb_state" where
  "variables s = s\<lparr>effects := []\<rparr>"

text \<open>Where the dataset is: not assigned at all, or three parallel collections.\<close>

definition unset_or_parallel :: "('m, 'fig) nb_state \<Rightarrow> bool" where
  "unset_or_parallel s \<longleftrightarrow>
     dataset s = (None, None, None) \<or>
     (\<exists>a b c. dataset s = (Some a, Some b, Some c) \<and> parallel_binary a b c)"

text \<open>The path an operation is given, if it is given one.\<close>

fun path_argument :: "operation \<Rightarrow> string option" where
  "path_argument (MakeGravitationalWaves p n a b k) = Some p"
| "path_argument opn = None"

text \<open>
  A run that raised \<open>e\<close>: its effects are an initial part of \<open>notebook_actions\<close>, and
  either the last of them is the library call that raised \<open>e\<close>, the only one that raised,
  or no call raised and \<open>e\<close> is the \<^verbatim>\<open>IndexError\<close> of an index expression of the notebook.
\<close>

definition run_raised :: "exn \<Rightarrow> ('m, 'fig) nb_state \<Rightarrow> bool" where
  "run_raised e s' \<longleftrightarrow>
     prefix (map action_of (effects s')) notebook_actions \<and>
     (raised (effects s') = [e] \<and> (\<exists>opn. last (effects s') = Call opn (Raised e)) \<or>
      raised (effects s') = [] \<and> e = IndexError)"

text \<open>
  A run that returned: every value a library call was given, and every variable left
  behind, in terms of what the earlier calls returned.
\<close>

definition run_returned :: "('m, 'fig) lib \<Rightarrow> ('m, 'fig) nb_state \<Rightarrow> bool" where
  "run_returned lib s' \<longleftrightarrow>
     raised (effects s') = [] \<and>
     map action_of (effects s') = notebook_actions \<and>
     (\<exists>ss i j f0 f1 f2 f3 g1 g2 n1 n2 e1 e2 e3 e4 F Xt Xv yt yv p pt qt ct a1 r1 pv qv cv a2 r2.
        samples lib ''./data'' 100 (65 / 100) (65 / 100) 1 = Inr ss \<and> ss \<noteq> [] \<and>
        R s' = Some (65 / 100) \<and> n_signals s' = Some 100 \<and> DATA s' = Some ''./data'' \<and>
        noisy_signals s' = Some (map noisy ss) \<and>
        gw_signals s' = Some (map gw ss) \<and>
        labels s' = Some (map label_of ss) \<and>
        argmin lib (map label_of ss) = Inr i \<and> i < length ss \<and> background_idx s' = Some i \<and>
        argmax lib (map label_of ss) = Inr j \<and> j < length ss \<and> signal_idx s' = Some j \<and>
        ts_noise s' = Some (noisy (ss ! i)) \<and>
        ts_background s' = Some (noisy (ss ! j)) \<and>
        ts_signal s' = Some (gw (ss ! j)) \<and>
        make_subplots lib 1 2 = Inr f0 \<and>
        add_trace lib f0 (line_trace (noisy (ss ! i)) ''noise'') 1 1 = Inr f1 \<and>
        add_trace lib f1 (line_trace (noisy (ss ! j)) ''background'') 1 2 = Inr f2 \<and>
        add_trace lib f2 (line_trace (gw (ss ! j)) ''signal'') 1 2 = Inr f3 \<and>
        fig s' = Some f3 \<and> fig_show lib f3 = Inr () \<and>
        fit_transform lib (SingleTakensEmbedding ''search'' 6 30 30 5) (of_series (gw (ss ! 0))) = Inr g1 \<and>
        y_gw_embedded s' = Some g1 \<and>
        fit_transform lib (PCA 3) g1 = Inr g2 \<and> y_gw_embedded_pca s' = Some g2 \<and>
        (\<exists>v. plot_point_cloud lib g2 = Inr v) \<and>
        fit_transform lib (SingleTakensEmbedding ''search'' 6 30 30 5) (of_series (noisy (ss ! i))) = Inr n1 \<and>
        y_noise_embedded s' = Some n1 \<and>
        fit_transform lib (PCA 3) n1 = Inr n2 \<and> y_noise_embedded_pca s' = Some n2 \<and>
        (\<exists>v. plot_point_cloud lib n2 = Inr v) \<and>
        embedding_dimension s' = Some 200 \<and> embedding_time_delay s' = Some 10 \<and> stride s' = Some 10 \<and>
        embedder s' = Some (TakensEmbedding 10 200 10) \<and>
        pca s' = Some (PCA 3) \<and>
        batch_pca s' = Some (CollectionTransformer (PCA 3) (- 1)) \<and>
        persistence s' = Some (VietorisRipsPersistence [0, 1] (- 1)) \<and>
        scaling s' = Some Scaler \<and>
        entropy s' = Some (PersistenceEntropy True (- 10)) \<and>
        steps s' = Some topological_steps \<and>
        topological_transfomer s' = Some (Pipeline topological_steps) \<and>
        fit_transform lib (TakensEmbedding 10 200 10) (of_collection (map noisy ss)) = Inr e1 \<and>
        fit_transform lib (CollectionTransformer (PCA 3) (- 1)) e1 = Inr e2 \<and>
        fit_transform lib (VietorisRipsPersistence [0, 1] (- 1)) e2 = Inr e3 \<and>
        fit_transform lib Scaler e3 = Inr e4 \<and>
        fit_transform lib (PersistenceEntropy True (- 10)) e4 = Inr F \<and>
        features s' = Some F \<and>
        train_test_split lib F (map label_of ss) (1 / 10) 42 = Inr (Xt, Xv, yt, yv) \<and>
        X_train s' = Some Xt \<and> X_valid s' = Some Xv \<and>
        y_train s' = Some yt \<and> y_valid s' = Some yv \<and>
        fit lib LogisticRegression Xt yt = Inr p \<and>
        model s' = Some (Classifier LogisticRegression (Some p)) \<and>
        predict lib p Xt = Inr pt \<and> accuracy_score lib pt yt = Inr a1 \<and>
        predict_proba lib p Xt = Inr qt \<and> column1 qt = Inr ct \<and>
        roc_auc_score lib yt ct = Inr r1 \<and>
        predict lib p Xv = Inr pv \<and> accuracy_score lib pv yv = Inr a2 \<and>
        predict_proba lib p Xv = Inr qv \<and> column1 qv = Inr cv \<and>
        roc_auc_score lib yv cv = Inr r2 \<and>
        printed_lines (effects s') =
          [(''Number of noisy signals: '', PNat (length ss)),
           (''Number of timesteps per series: '', PNat (length (noisy (ss ! 0)))),
           (''Accuracy on train:'', PFloat (py_round a1 3)),
           (''ROC AUC on train:'', PFloat (py_round r1 3)),
           (''Accuracy on valid:'', PFloat (py_round a2 3)),
           (''ROC AUC on valid:'', PFloat (py_round r2 3))])"

section \<open>Rules for running code\<close>

lemma wp_return: "wp (nb_return x) Q E s = Q x s"
  by (simp add: wp_def nb_return_def)

lemma wp_lift:
  "wp (nb_lift r) Q E s = ((\<forall>e. r = Inl e \<longrightarrow> E e s) \<and> (\<forall>v. r = Inr v \<longrightarrow> Q v s))"
  by (cases r) (simp_all add: wp_def nb_lift_def)

lemma wp_bind: "wp (nb_bind m f) Q E s = wp m (\<lambda>x. wp (f x) Q E) E s"
  by (simp add: wp_def nb_bind_def split: prod.splits sum.splits)

lemma wp_emit: "wp (nb_emit ev) Q E s = Q () (s\<lparr>effects := effects s @ [ev]\<rparr>)"
  by (simp add: wp_def nb_emit_def)

lemma wp_call:
  "wp (nb_call opn r) Q E s =
     ((\<forall>e. r = Inl e \<longrightarrow> E e (s\<lparr>effects := effects s @ [Call opn (Raised e)]\<rparr>)) \<and>
      (\<forall>v. r = Inr v \<longrightarrow> Q v (s\<lparr>effects := effects s @ [Call opn Returned]\<rparr>)))"
  by (cases r) (simp_all add: wp_def nb_call_def)

lemma wp_var:
  "wp (nb_var f) Q E s = (case f s of None \<Rightarrow> E NameError s | Some v \<Rightarrow> Q v s)"
  by (cases "f s") (simp_all add: wp_def nb_var_def)

lemma wp_assign:
  "wp (nb_assign upd rhs) Q E s = wp rhs (\<lambda>v s1. Q () (upd (\<lambda>_. Some v) s1)) E s"
  by (simp add: wp_def nb_assign_def nb_bind_def split: prod.splits sum.splits)

lemma wp_exec_Nil: "wp (exec []) Q E s = Q () s"
  by (simp add: wp_return)

lemma wp_exec_Cons: "wp (exec (c # cs)) Q E s = wp c (\<lambda>_. wp (exec cs) Q E) E s"
  by (simp add: wp_bind)

lemma wp_case_prod:
  "wp (case p of (a, b) \<Rightarrow> f a b) Q E s = (\<forall>a b. p = (a, b) \<longrightarrow> wp (f a b) Q E s)"
  by (cases p) simp

lemma wp_case_classifier:
  "wp (case c of Classifier a b \<Rightarrow> f a b) Q E s = (\<forall>a b. c = Classifier a b \<longrightarrow> wp (f a b) Q E s)"
  by (cases c) simp

lemma wp_pipeline:
  "wp (pipeline_fit_transform lib (Pipeline sts) X) Q E s = wp (pipeline_steps lib sts X) Q E s"
  by simp

lemma wp_pipeline_Nil: "wp (pipeline_steps lib [] X) Q E s = Q X s"
  by (simp add: wp_return)

lemma wp_pipeline_Cons:
  "wp (pipeline_steps lib (st # rest) X) Q E s =
     wp (nb_call (FitTransform (snd st)) (fit_transform lib (snd st) X))
       (\<lambda>x. wp (pipeline_steps lib rest x) Q E) E s"
  by (simp add: wp_bind)

lemma wp_print_Nil: "wp (print_items []) Q E s = Q () s"
  by (simp add: wp_return)

lemma wp_print_Cons:
  "wp (print_items (kv # kvs)) Q E s =
     wp (print_items kvs) Q E (s\<lparr>effects := effects s @ [Print (fst kv) (PFloat (py_round (snd kv) 3))]\<rparr>)"
  by (simp add: wp_bind wp_emit)

lemmas wp_rules =
  wp_return wp_lift wp_bind wp_emit wp_call wp_var wp_assign wp_exec_Nil wp_exec_Cons
  wp_case_prod wp_case_classifier wp_pipeline wp_pipeline_Nil wp_pipeline_Cons
  wp_print_Nil wp_print_Cons

text \<open>Simplify the code and the state of a \<open>wp\<close>, never the conditions still to be met.\<close>

lemma wp_weak_cong: "m = m' \<Longrightarrow> s = s' \<Longrightarrow> wp m Q E s = wp m' Q E s'"
  by simp

lemma wp_returned: "wp m Q E s \<Longrightarrow> m s = (Inr x, s') \<Longrightarrow> Q x s'"
  by (simp add: wp_def)

lemma wp_raised: "wp m Q E s \<Longrightarrow> m s = (Inl e, s') \<Longrightarrow> E e s'"
  by (simp add: wp_def)

lemmas cell_defs =
  cell_video1_def cell_video2_def cell_generate_def cell_visualise_def add_trace_stmt_def
  single_embedder_stmts_def cell_embed_signal_def cell_pca_signal_def cell_embed_noise_def
  cell_define_pipeline_def cell_features_def cell_split_def cell_define_print_scores_def
  cell_train_def

lemma kernel_start_fields:
  "R kernel_start = None" "n_signals kernel_start = None" "DATA kernel_start = None"
  "noisy_signals kernel_start = None" "gw_signals kernel_start = None" "labels kernel_start = None"
  "background_idx kernel_start = None" "signal_idx kernel_start = None" "ts_noise kernel_start = None"
  "ts_background kernel_start = None" "ts_signal kernel_start = None" "fig kernel_start = None"
  "embedding_dimension kernel_start = None" "embedding_time_delay kernel_start = None"
  "stride kernel_start = None" "embedder kernel_start = None" "y_gw_embedded kernel_start = None"
  "pca kernel_start = None" "y_gw_embedded_pca kernel_start = None" "y_noise_embedded kernel_start = None"
  "y_noise_embedded_pca kernel_start = None" "batch_pca kernel_start = None" "persistence kernel_start = None"
  "scaling kernel_start = None" "entropy kernel_start = None" "steps kernel_start = None"
  "topological_transfomer kernel_start = None" "features kernel_start = None" "X_train kernel_start = None"
  "X_valid kernel_start = None" "y_train kernel_start = None" "y_valid kernel_start = None"
  "model kernel_start = None" "effects kernel_start = []"
  by (simp_all add: kernel_start_def)

lemma generator_returned:
  "make_gravitational_waves lib p n r1 r2 k = Inr (a, b, c) \<longleftrightarrow>
     (\<exists>ss. samples lib p n r1 r2 k = Inr ss \<and> a = map noisy ss \<and> b = map gw ss \<and> c = map label_of ss)"
  by (auto simp: make_gravitational_waves_def split: sum.splits)

lemma generator_raised:
  "make_gravitational_waves lib p n r1 r2 k = Inl e \<longleftrightarrow> samples lib p n r1 r2 k = Inl e"
  by (simp add: make_gravitational_waves_def split: sum.splits)

lemma column1_raised: "column1 rows = Inl e \<Longrightarrow> e = IndexError"
  by (simp add: column1_def split: if_splits)

lemma getitem_returned: "getitem xs i = Inr x \<longleftrightarrow> i < length xs \<and> x = xs ! i"
  by (auto simp: getitem_def)

lemma getitem_raised: "getitem xs i = Inl e \<longleftrightarrow> \<not> i < length xs \<and> e = IndexError"
  by (auto simp: getitem_def)

section \<open>Frame rules\<close>

lemma preserves_return: "preserves g (nb_return x)"
  by (simp add: preserves_def nb_return_def)

lemma preserves_lift: "preserves g (nb_lift r)"
  by (simp add: preserves_def nb_lift_def)

lemma preserves_var: "preserves g (nb_var f)"
  by (simp add: preserves_def nb_var_def split: option.splits)

lemma preserves_emit: "ignores_log g \<Longrightarrow> preserves g (nb_emit ev)"
  by (simp add: preserves_def nb_emit_def ignores_log_def)

lemma preserves_call: "ignores_log g \<Longrightarrow> preserves g (nb_call opn r)"
  by (simp add: preserves_def nb_call_def ignores_log_def split: sum.splits)

lemma preserves_bind:
  assumes "preserves g m" and "\<And>x. preserves g (f x)"
  shows "preserves g (nb_bind m f)"
proof -
  have "g (snd (nb_bind m f s)) = g s" for s
  proof (cases "m s")
    case (Pair r s1)
    have s1: "g s1 = g s"
      using assms(1) Pair by (metis preserves_def snd_conv)
    show ?thesis
    proof (cases r)
      case (Inl e)
      with Pair s1 show ?thesis by (simp add: nb_bind_def)
    next
      case (Inr x)
      have "g (snd (f x s1)) = g s1"
        using assms(2) by (simp add: preserves_def)
      with Pair Inr s1 show ?thesis by (simp add: nb_bind_def)
    qed
  qed
  then show ?thesis by (simp add: preserves_def)
qed

lemma preserves_assign:
  assumes "preserves g rhs" and "\<And>v s. g (upd (\<lambda>_. Some v) s) = g s"
  shows "preserves g (nb_assign upd rhs)"
  unfolding nb_assign_def
  by (rule preserves_bind [OF assms(1)]) (simp add: preserves_def assms(2))

lemma preserves_exec_Nil: "preserves g (exec [])"
  by (simp add: preserves_return)

lemma preserves_exec_Cons:
  "preserves g c \<Longrightarrow> preserves g (exec cs) \<Longrightarrow> preserves g (exec (c # cs))"
  by (simp add: preserves_bind)

lemma preserves_case_prod:
  "(\<And>a b. preserves g (f a b)) \<Longrightarrow> preserves g (case p of (a, b) \<Rightarrow> f a b)"
  by (cases p) simp

lemma preserves_case_classifier:
  "(\<And>a b. preserves g (f a b)) \<Longrightarrow> preserves g (case c of Classifier a b \<Rightarrow> f a b)"
  by (cases c) simp

lemma preserves_pipeline_steps: "ignores_log g \<Longrightarrow> preserves g (pipeline_steps lib sts X)"
  by (induction sts arbitrary: X) (simp_all add: preserves_return preserves_bind preserves_call)

lemma preserves_pipeline: "ignores_log g \<Longrightarrow> preserves g (pipeline_fit_transform lib t X)"
  by (cases t) (simp add: preserves_pipeline_steps)

lemma preserves_print_items: "ignores_log g \<Longrightarrow> preserves g (print_items kvs)"
  by (induction kvs) (simp_all add: preserves_return preserves_bind preserves_emit)

lemmas preserves_rules =
  preserves_return preserves_lift preserves_var preserves_emit preserves_call preserves_bind
  preserves_assign preserves_case_prod preserves_case_classifier preserves_pipeline
  preserves_print_items preserves_exec_Nil preserves_exec_Cons

lemma ignores_log_variables: "ignores_log variables"
  by (simp add: ignores_log_def variables_def)

lemma ignores_log_dataset: "ignores_log dataset"
  by (simp add: ignores_log_def dataset_def)

lemma print_scores_variables: "preserves variables (print_scores lib c)"
  unfolding print_scores_def
  by (intro preserves_rules ignores_log_variables)

lemma print_scores_dataset: "preserves dataset (print_scores lib c)"
  unfolding print_scores_def
  by (intro preserves_rules ignores_log_dataset)

text \<open>
  Every statement of the notebook other than the unpacking of the generator's result leaves
  the three collections alone.
\<close>

lemma notebook_stmt_frame:
  "c \<in> set (notebook lib) \<Longrightarrow> c = generate_stmt lib \<or> preserves dataset c"
  unfolding notebook_def cell_defs
  apply (simp only: append_Cons append_Nil set_simps insert_iff empty_iff)
  apply (elim disjE FalseE)
  apply (simp_all only:)
  apply ((rule disjI1, rule refl) |
         (rule disjI2, (intro preserves_rules ignores_log_dataset print_scores_dataset;
            simp add: dataset_def)))+
  done

text \<open>What holds before a list of statements and is kept by each of them holds after it.\<close>

lemma exec_invariant:
  assumes "\<And>c s. c \<in> set cs \<Longrightarrow> I s \<Longrightarrow> I (snd (c s))" and "I s"
  shows "I (snd (exec cs s))"
  using assms
proof (induction cs arbitrary: s)
  case Nil
  then show ?case by (simp add: nb_return_def)
next
  case (Cons c cs)
  have step: "I (snd (c s))" using Cons.prems by simp
  show ?case
  proof (cases "c s")
    case (Pair r s1)
    with step have s1: "I s1" by simp
    show ?thesis
    proof (cases r)
      case (Inl e)
      with Pair s1 show ?thesis by (simp add: nb_bind_def)
    next
      case (Inr x)
      have "I (snd (exec cs s1))"
        using Cons.IH [of s1] Cons.prems(1) s1 by simp
      with Pair Inr show ?thesis by (simp add: nb_bind_def)
    qed
  qed
qed

lemma generator_parallel:
  "make_gravitational_waves lib p n r1 r2 k = Inr (a, b, c) \<Longrightarrow> parallel_binary a b c"
  by (auto simp: generator_returned parallel_binary_def list_all_iff label_of_def)

lemma generate_stmt_outcome:
  "wp (generate_stmt lib)
     (\<lambda>_ s'. \<exists>a b c. dataset s' = (Some a, Some b, Some c) \<and> parallel_binary a b c)
     (\<lambda>e s'. dataset s' = dataset s) s"
  unfolding generate_stmt_def
  by (auto simp: wp_rules dataset_def dest: generator_parallel split: option.splits)

lemma stmt_keeps_parallel:
  assumes "c \<in> set (notebook lib)" and "unset_or_parallel s"
  shows "unset_or_parallel (snd (c s))"
proof -
  from notebook_stmt_frame [OF assms(1)] show ?thesis
  proof
    assume "c = generate_stmt lib"
    with generate_stmt_outcome [of lib s] assms(2) show ?thesis
      by (auto simp: wp_def unset_or_parallel_def split: prod.splits sum.splits)
  next
    assume "preserves dataset c"
    then have "dataset (snd (c s)) = dataset s" by (simp add: preserves_def)
    with assms(2) show ?thesis by (simp add: unset_or_parallel_def)
  qed
qed

lemma state_at_parallel: "unset_or_parallel (state_at (lib :: ('m, 'fig) lib) k)"
  unfolding state_at_def
proof (rule exec_invariant)
  show "unset_or_parallel (kernel_start :: ('m, 'fig) nb_state)"
    by (simp add: unset_or_parallel_def dataset_def kernel_start_fields)
next
  fix c :: "(unit, 'm, 'fig) nb" and s :: "('m, 'fig) nb_state"
  assume "c \<in> set (take k (notebook lib))" and "unset_or_parallel s"
  then show "unset_or_parallel (snd (c s))"
    using stmt_keeps_parallel [of c lib s] by (meson in_set_takeD)
qed


lemma nb_bind_assoc: "nb_bind (nb_bind m f) g = nb_bind m (\<lambda>x. nb_bind (f x) g)"
  by (rule ext) (simp add: nb_bind_def split: prod.splits sum.splits)

lemma nb_bind_return: "nb_bind (nb_return x) f = f x"
  by (rule ext) (simp add: nb_bind_def nb_return_def)

lemma exec_append: "exec (xs @ ys) = nb_bind (exec xs) (\<lambda>_. exec ys)"
  by (induction xs) (simp_all add: nb_bind_assoc nb_bind_return)

lemma stmt_keeps_labels:
  assumes "c \<in> set (notebook lib)" and "labels s \<noteq> None"
  shows "labels (snd (c s)) \<noteq> None"
proof -
  from notebook_stmt_frame [OF assms(1)] show ?thesis
  proof
    assume "c = generate_stmt lib"
    with generate_stmt_outcome [of lib s] assms(2) show ?thesis
      by (auto simp: wp_def dataset_def split: prod.splits sum.splits)
  next
    assume "preserves dataset c"
    then have "dataset (snd (c s)) = dataset s" by (simp add: preserves_def)
    with assms(2) show ?thesis by (simp add: dataset_def)
  qed
qed

lemma generated_after_six:
  "wp (exec (take 6 (notebook lib))) (\<lambda>_ s'. labels s' \<noteq> None) (\<lambda>e s'. True) kernel_start"
  unfolding notebook_def cell_defs generate_stmt_def
  by (simp add: wp_rules kernel_start_fields cong: wp_weak_cong)

lemma labels_stay_assigned:
  fixes lib :: "('m, 'fig) lib"
  assumes "6 \<le> k" and "fst (exec (take 6 (notebook lib)) kernel_start) = Inr ()"
  shows "labels (state_at lib k) \<noteq> None"
proof -
  define s6 :: "('m, 'fig) nb_state" where "s6 = snd (exec (take 6 (notebook lib)) kernel_start)"
  have run6: "exec (take 6 (notebook lib)) kernel_start = (Inr (), s6)"
    using assms(2) by (simp add: s6_def prod_eq_iff)
  have s6: "labels s6 \<noteq> None"
    using wp_returned [OF generated_after_six run6] .
  have "take k (notebook lib) = take 6 (notebook lib) @ take (k - 6) (drop 6 (notebook lib))"
    using assms(1) take_add [of 6 "k - 6" "notebook lib"] by simp
  then have "state_at lib k = snd (exec (take (k - 6) (drop 6 (notebook lib))) s6)"
    by (simp add: state_at_def exec_append nb_bind_def run6)
  moreover have "labels (snd (exec (take (k - 6) (drop 6 (notebook lib))) s6)) \<noteq> None"
  proof (rule exec_invariant [where I = "\<lambda>s. labels s \<noteq> None"])
    fix c :: "(unit, 'm, 'fig) nb" and s :: "('m, 'fig) nb_state"
    assume "c \<in> set (take (k - 6) (drop 6 (notebook lib)))" and "labels s \<noteq> None"
    then show "labels (snd (c s)) \<noteq> None"
      using stmt_keeps_labels [of c lib s] by (meson in_set_takeD in_set_dropD)
  qed (rule s6)
  ultimately show ?thesis by simp
qed

text \<open>
  C3. Whatever the generator returns is three collections of the same length with labels
  0 or 1. At every point of a run, that is, after any number of statements, the variables
  \<open>noisy_signals\<close>, \<open>gw_signals\<close> and \<open>labels\<close> hold such collections as soon as
  \<open>labels\<close> is assigned; and once the statement that unpacks the generator's result (the
  sixth) has returned, \<open>labels\<close> stays assigned.
\<close>

theorem dataset_parallel_at_every_point:
  fixes lib :: "('m, 'fig) lib"
  shows "(\<forall>p n r1 r2 m a b c.
            make_gravitational_waves lib p n r1 r2 m = Inr (a, b, c) \<longrightarrow>
            length a = length b \<and> length b = length c \<and> (\<forall>l\<in>set c. l = 0 \<or> l = 1)) \<and>
         (\<forall>k. labels (state_at lib k) \<noteq> None \<longrightarrow>
            (\<exists>a b c. noisy_signals (state_at lib k) = Some a \<and>
                     gw_signals (state_at lib k) = Some b \<and>
                     labels (state_at lib k) = Some c \<and>
                     length a = length b \<and> length b = length c \<and>
                     (\<forall>l\<in>set c. l = 0 \<or> l = 1))) \<and>
         (\<forall>k\<ge>6. fst (exec (take 6 (notebook lib)) kernel_start) = Inr () \<longrightarrow>
            labels (state_at lib k) \<noteq> None)"
proof (intro conjI allI impI)
  fix p n r1 r2 m a b c
  assume "make_gravitational_waves lib p n r1 r2 m = Inr (a, b, c)"
  then have "parallel_binary a b c" by (rule generator_parallel)
  then show "length a = length b" and "length b = length c" and "\<forall>l\<in>set c. l = 0 \<or> l = 1"
    by (simp_all add: parallel_binary_def list_all_iff)
next
  fix k
  assume assigned: "labels (state_at lib k) \<noteq> None"
  have "unset_or_parallel (state_at lib k)" by (rule state_at_parallel)
  with assigned show "\<exists>a b c. noisy_signals (state_at lib k) = Some a \<and>
      gw_signals (state_at lib k) = Some b \<and> labels (state_at lib k) = Some c \<and>
      length a = length b \<and> length b = length c \<and> (\<forall>l\<in>set c. l = 0 \<or> l = 1)"
    by (auto simp: unset_or_parallel_def dataset_def parallel_binary_def list_all_iff)
next
  fix k :: nat
  assume "6 \<le> k" and "fst (exec (take 6 (notebook lib)) kernel_start) = Inr ()"
  then show "labels (state_at lib k) \<noteq> None" by (rule labels_stay_assigned)
qed

theorem dataset_parallel_witness:
  "make_gravitational_waves demo_lib ''./data'' 100 (65 / 100) (65 / 100) 1 =
     Inr ([[1, 2, 3], [2, 4, 3]], [[0, 0, 0], [1, 2, 0]], [0, 1]) \<and>
   fst (exec (take 6 (notebook demo_lib)) kernel_start) = Inr () \<and>
   labels (state_at demo_lib 49) \<noteq> None \<and>
   (\<exists>a b c. noisy_signals (state_at demo_lib 49) = Some a \<and>
            gw_signals (state_at demo_lib 49) = Some b \<and>
            labels (state_at demo_lib 49) = Some c \<and>
            length a = length b \<and> length b = length c \<and>
            (\<forall>l\<in>set c. l = 0 \<or> l = 1))"
proof -
  note inst = dataset_parallel_at_every_point [of demo_lib]
  have gen: "make_gravitational_waves demo_lib ''./data'' 100 (65 / 100) (65 / 100) 1 =
      Inr ([[1, 2, 3], [2, 4, 3]], [[0, 0, 0], [1, 2, 0]], [0, 1])"
    by (simp add: make_gravitational_waves_def demo_lib_def label_of_def)
  have six: "fst (exec (take 6 (notebook demo_lib)) kernel_start) = Inr ()"
    unfolding notebook_def cell_defs generate_stmt_def
    by (simp add: nb_bind_def nb_assign_def nb_return_def nb_var_def nb_call_def nb_emit_def
        kernel_start_def make_gravitational_waves_def demo_lib_def)
  have assigned: "labels (state_at demo_lib 49) \<noteq> None"
    using inst six by simp
  with inst have "\<exists>a b c. noisy_signals (state_at demo_lib 49) = Some a \<and>
      gw_signals (state_at demo_lib 49) = Some b \<and> labels (state_at demo_lib 49) = Some c \<and>
      length a = length b \<and> length b = length c \<and> (\<forall>l\<in>set c. l = 0 \<or> l = 1)"
    by blast
  with gen six assigned show ?thesis by blast
qed

section \<open>The generator call\<close>

lemma cell_generate_outcome:
  "wp (exec (cell_generate lib))
     (\<lambda>u s'. \<exists>oc rest.
        effects s' = effects s @
          Call (MakeGravitationalWaves ''./data'' 100 (65 / 100) (65 / 100) 1) oc # rest \<and>
        (case make_gravitational_waves lib ''./data'' 100 (65 / 100) (65 / 100) 1 of
           Inl e \<Rightarrow> False
         | Inr (a, b, c) \<Rightarrow>
             oc = Returned \<and> noisy_signals s' = Some a \<and> gw_signals s' = Some b \<and>
             labels s' = Some c \<and> length a = length b \<and> length b = length c))
     (\<lambda>e' s'. \<exists>oc rest.
        effects s' = effects s @
          Call (MakeGravitationalWaves ''./data'' 100 (65 / 100) (65 / 100) 1) oc # rest \<and>
        (case make_gravitational_waves lib ''./data'' 100 (65 / 100) (65 / 100) 1 of
           Inl e \<Rightarrow> oc = Raised e \<and> e' = e \<and> rest = [] \<and> dataset s' = dataset s
         | Inr (a, b, c) \<Rightarrow>
             oc = Returned \<and> noisy_signals s' = Some a \<and> gw_signals s' = Some b \<and>
             labels s' = Some c \<and> length a = length b \<and> length b = length c))
     s"
  unfolding cell_generate_def generate_stmt_def
  by (auto simp add: wp_rules dataset_def getitem_returned getitem_raised parallel_binary_def
      dest: generator_parallel cong: wp_weak_cong)

text \<open>
  C2. The generator is called with the path \<^verbatim>\<open>./data\<close>, the signal count 100,
  \<open>r_min = r_max = 0.65\<close> and \<open>n_snr_values = 1\<close>, before anything else the cell does; what
  it returns is unpacked into exactly the three variables \<open>noisy_signals\<close>, \<open>gw_signals\<close>
  and \<open>labels\<close>, three collections of the same length; and if it raises, so does the cell,
  without assigning any of them.
\<close>

theorem generator_call:
  assumes "exec (cell_generate lib) s = (r, s')"
  shows "\<exists>oc rest.
     effects s' = effects s @
       Call (MakeGravitationalWaves ''./data'' 100 (65 / 100) (65 / 100) 1) oc # rest \<and>
     (case make_gravitational_waves lib ''./data'' 100 (65 / 100) (65 / 100) 1 of
        Inl e \<Rightarrow> oc = Raised e \<and> r = Inl e \<and> rest = [] \<and> dataset s' = dataset s
      | Inr (a, b, c) \<Rightarrow>
          oc = Returned \<and> noisy_signals s' = Some a \<and> gw_signals s' = Some b \<and>
          labels s' = Some c \<and> length a = length b \<and> length b = length c)"
proof (cases r)
  case (Inl e')
  with assms have "exec (cell_generate lib) s = (Inl e', s')" by simp
  from wp_raised [OF cell_generate_outcome this] Inl show ?thesis
    by (fastforce split: sum.splits)
next
  case (Inr u)
  with assms have "exec (cell_generate lib) s = (Inr u, s')" by simp
  from wp_returned [OF cell_generate_outcome this] show ?thesis
    by (fastforce split: sum.splits)
qed

theorem generator_call_witness:
  "\<exists>oc rest.
     effects (snd (exec (cell_generate demo_lib) kernel_start)) = effects (kernel_start :: (unit, unit) nb_state) @
       Call (MakeGravitationalWaves ''./data'' 100 (65 / 100) (65 / 100) 1) oc # rest \<and>
     (case make_gravitational_waves demo_lib ''./data'' 100 (65 / 100) (65 / 100) 1 of
        Inl e \<Rightarrow> oc = Raised e \<and> fst (exec (cell_generate demo_lib) kernel_start) = Inl e \<and>
          rest = [] \<and> dataset (snd (exec (cell_generate demo_lib) kernel_start)) = dataset (kernel_start :: (unit, unit) nb_state)
      | Inr (a, b, c) \<Rightarrow>
          oc = Returned \<and> noisy_signals (snd (exec (cell_generate demo_lib) kernel_start)) = Some a \<and>
          gw_signals (snd (exec (cell_generate demo_lib) kernel_start)) = Some b \<and>
          labels (snd (exec (cell_generate demo_lib) kernel_start)) = Some c \<and>
          length a = length b \<and> length b = length c)"
  by (rule generator_call [of demo_lib kernel_start
        "fst (exec (cell_generate demo_lib) kernel_start)"
        "snd (exec (cell_generate demo_lib) kernel_start)"]) simp

section \<open>Printing the scores\<close>

lemma printed_lines_append: "printed_lines (es @ fs) = printed_lines es @ printed_lines fs"
  by (induction es rule: printed_lines.induct) simp_all

lemma print_scores_outcome:
  "wp (print_scores lib c)
     (\<lambda>_ s'. \<exists>es Xt yt Xv yv pt qt ct pv qv cv v1 v2 v3 v4.
        effects s' = effects s @ es \<and>
        X_train s = Some Xt \<and> y_train s = Some yt \<and> X_valid s = Some Xv \<and> y_valid s = Some yv \<and>
        model_predict lib c Xt = Inr pt \<and> accuracy_score lib pt yt = Inr v1 \<and>
        model_predict_proba lib c Xt = Inr qt \<and> column1 qt = Inr ct \<and>
        roc_auc_score lib yt ct = Inr v2 \<and>
        model_predict lib c Xv = Inr pv \<and> accuracy_score lib pv yv = Inr v3 \<and>
        model_predict_proba lib c Xv = Inr qv \<and> column1 qv = Inr cv \<and>
        roc_auc_score lib yv cv = Inr v4 \<and>
        printed_lines es =
          [(''Accuracy on train:'', PFloat (py_round v1 3)),
           (''ROC AUC on train:'', PFloat (py_round v2 3)),
           (''Accuracy on valid:'', PFloat (py_round v3 3)),
           (''ROC AUC on valid:'', PFloat (py_round v4 3))])
     (\<lambda>e s'. \<exists>es. effects s' = effects s @ es \<and> printed_lines es = [])
     s"
  unfolding print_scores_def
  by (auto simp add: wp_rules split: option.splits cong: wp_weak_cong)


lemma round_half_even_near: "\<bar>real_of_int (round_half_even x) - x\<bar> \<le> 1 / 2"
proof -
  have "real_of_int \<lfloor>x\<rfloor> \<le> x" and "x < real_of_int \<lfloor>x\<rfloor> + 1"
    by linarith+
  then show ?thesis
    by (auto simp: round_half_even_def Let_def)
qed

lemma py_round_three:
  "\<exists>n. py_round (Fin x) 3 = Fin (real_of_int n / 1000) \<and> \<bar>real_of_int n / 1000 - x\<bar> \<le> 1 / 2000"
proof -
  define n where "n = round_half_even (x * 1000)"
  have "\<bar>real_of_int n - x * 1000\<bar> \<le> 1 / 2"
    unfolding n_def by (rule round_half_even_near)
  then have "\<bar>real_of_int n / 1000 - x\<bar> \<le> 1 / 2000"
    by (simp add: abs_le_iff field_simps)
  moreover have "py_round (Fin x) 3 = Fin (real_of_int n / 1000)"
    by (simp add: n_def)
  ultimately show ?thesis by blast
qed

lemma variables_fields:
  "variables s' = variables s \<Longrightarrow>
     model s' = model s \<and> X_train s' = X_train s \<and> X_valid s' = X_valid s \<and>
     y_train s' = y_train s \<and> y_valid s' = y_valid s"
  by (metis nb_state.select_convs(29-33) nb_state.surjective nb_state.update_convs(34) variables_def)

text \<open>
  C10. \<^verbatim>\<open>print_scores\<close> changes no variable: the model, \<open>X_train\<close>, \<open>X_valid\<close>, \<open>y_train\<close>
  and \<open>y_valid\<close> are as before. When it returns it has printed exactly four lines, the
  accuracy and the ROC AUC on the training set and then on the validation set, each the
  value the metric returned, rounded to three decimal places (a multiple of 0.001 at
  most 0.0005 away; NaN stays NaN). When it raises it has printed nothing.
\<close>

theorem print_scores_observer:
  assumes "print_scores lib fitted_model s = (r, s')"
  shows "variables s' = variables s \<and>
     model s' = model s \<and> X_train s' = X_train s \<and> X_valid s' = X_valid s \<and>
     y_train s' = y_train s \<and> y_valid s' = y_valid s \<and>
     (\<exists>es. effects s' = effects s @ es \<and>
        (case r of
           Inl e \<Rightarrow> printed_lines es = []
         | Inr u \<Rightarrow>
             \<exists>Xt yt Xv yv pt qt ct pv qv cv v1 v2 v3 v4.
               X_train s = Some Xt \<and> y_train s = Some yt \<and>
               X_valid s = Some Xv \<and> y_valid s = Some yv \<and>
               model_predict lib fitted_model Xt = Inr pt \<and> accuracy_score lib pt yt = Inr v1 \<and>
               model_predict_proba lib fitted_model Xt = Inr qt \<and> column1 qt = Inr ct \<and>
               roc_auc_score lib yt ct = Inr v2 \<and>
               model_predict lib fitted_model Xv = Inr pv \<and> accuracy_score lib pv yv = Inr v3 \<and>
               model_predict_proba lib fitted_model Xv = Inr qv \<and> column1 qv = Inr cv \<and>
               roc_auc_score lib yv cv = Inr v4 \<and>
               printed_lines es =
                 [(''Accuracy on train:'', PFloat (py_round v1 3)),
                  (''ROC AUC on train:'', PFloat (py_round v2 3)),
                  (''Accuracy on valid:'', PFloat (py_round v3 3)),
                  (''ROC AUC on valid:'', PFloat (py_round v4 3))])) \<and>
     (\<forall>x. \<exists>n. py_round (Fin x) 3 = Fin (real_of_int n / 1000) \<and>
              \<bar>real_of_int n / 1000 - x\<bar> \<le> 1 / 2000) \<and>
     py_round NaN 3 = NaN"
proof -
  have frame: "variables s' = variables s"
    using print_scores_variables [of lib fitted_model] assms
    by (metis preserves_def snd_conv)
  have log: "\<exists>es. effects s' = effects s @ es \<and>
        (case r of
           Inl e \<Rightarrow> printed_lines es = []
         | Inr u \<Rightarrow>
             \<exists>Xt yt Xv yv pt qt ct pv qv cv v1 v2 v3 v4.
               X_train s = Some Xt \<and> y_train s = Some yt \<and>
               X_valid s = Some Xv \<and> y_valid s = Some yv \<and>
               model_predict lib fitted_model Xt = Inr pt \<and> accuracy_score lib pt yt = Inr v1 \<and>
               model_predict_proba lib fitted_model Xt = Inr qt \<and> column1 qt = Inr ct \<and>
               roc_auc_score lib yt ct = Inr v2 \<and>
               model_predict lib fitted_model Xv = Inr pv \<and> accuracy_score lib pv yv = Inr v3 \<and>
               model_predict_proba lib fitted_model Xv = Inr qv \<and> column1 qv = Inr cv \<and>
               roc_auc_score lib yv cv = Inr v4 \<and>
               printed_lines es =
                 [(''Accuracy on train:'', PFloat (py_round v1 3)),
                  (''ROC AUC on train:'', PFloat (py_round v2 3)),
                  (''Accuracy on valid:'', PFloat (py_round v3 3)),
                  (''ROC AUC on valid:'', PFloat (py_round v4 3))])"
  proof (cases r)
    case (Inl e)
    with assms have "print_scores lib fitted_model s = (Inl e, s')" by simp
    from wp_raised [OF print_scores_outcome this] Inl show ?thesis by simp
  next
    case (Inr u)
    with assms have "print_scores lib fitted_model s = (Inr u, s')" by simp
    from wp_returned [OF print_scores_outcome this] Inr show ?thesis
      by (simp only: sum.case) blast
  qed
  from frame variables_fields [OF frame] log py_round_three show ?thesis
    by simp
qed


lemmas nb_defs =
  nb_return_def nb_lift_def nb_bind_def nb_emit_def nb_call_def nb_var_def nb_assign_def

lemma demo_print_scores:
  "print_scores demo_lib demo_fitted demo_state =
     (Inr (),
      demo_state\<lparr>effects :=
        [Call Predict Returned, Call AccuracyScore Returned,
         Call PredictProba Returned, Call RocAucScore Returned,
         Call Predict Returned, Call AccuracyScore Returned,
         Call PredictProba Returned, Call RocAucScore Returned,
         Print ''Accuracy on train:'' (PFloat (Fin (1 / 2))),
         Print ''ROC AUC on train:'' (PFloat (Fin 1)),
         Print ''Accuracy on valid:'' (PFloat (Fin 1)),
         Print ''ROC AUC on valid:'' (PFloat (Fin 1))]\<rparr>)"
  by (simp add: print_scores_def nb_defs demo_lib_def demo_fitted_def demo_state_def
      kernel_start_def model_predict_def model_predict_proba_def column1_def
      sk_accuracy_score_def round_half_even_def)

theorem print_scores_observer_witness:
  "fst (print_scores demo_lib demo_fitted demo_state) = Inr () \<and>
   variables (snd (print_scores demo_lib demo_fitted demo_state)) = variables demo_state \<and>
   (\<exists>es v1 v2 v3 v4.
      effects (snd (print_scores demo_lib demo_fitted demo_state)) = effects demo_state @ es \<and>
      printed_lines es =
        [(''Accuracy on train:'', PFloat (py_round v1 3)),
         (''ROC AUC on train:'', PFloat (py_round v2 3)),
         (''Accuracy on valid:'', PFloat (py_round v3 3)),
         (''ROC AUC on valid:'', PFloat (py_round v4 3))])"
proof -
  have run: "print_scores demo_lib demo_fitted demo_state =
      (Inr (), snd (print_scores demo_lib demo_fitted demo_state))"
    by (simp add: demo_print_scores)
  from print_scores_observer [OF run] show ?thesis
    by (simp add: demo_print_scores) blast
qed

section \<open>The order of the arguments of the accuracy\<close>

lemma agreements_commute:
  "length (filter (\<lambda>(t, p). t = p) (zip a b)) = length (filter (\<lambda>(t, p). t = p) (zip b a))"
proof (induction a arbitrary: b)
  case Nil
  then show ?case by simp
next
  case (Cons x a)
  then show ?case by (cases b) auto
qed

lemma sk_accuracy_score_commute: "sk_accuracy_score a b = sk_accuracy_score b a"
proof (cases "length a = length b")
  case True
  then have "a = [] \<longleftrightarrow> b = []" by auto
  with True show ?thesis
    by (simp add: sk_accuracy_score_def agreements_commute [of a b])
next
  case False
  then show ?thesis by (auto simp: sk_accuracy_score_def)
qed

text \<open>Two pieces of code that meet the same conditions from a state do the same there.\<close>

lemma wp_ext:
  assumes "\<And>Q E. wp m Q E s = wp m' Q E s"
  shows "m s = m' s"
proof -
  have "wp m' (\<lambda>x s'. m' s = (Inr x, s')) (\<lambda>e s'. m' s = (Inl e, s')) s"
    by (simp add: wp_def split: prod.splits sum.splits)
  then have "wp m (\<lambda>x s'. m' s = (Inr x, s')) (\<lambda>e s'. m' s = (Inl e, s')) s"
    by (simp add: assms)
  then show ?thesis
    by (auto simp: wp_def split: prod.splits sum.splits)
qed

lemma print_scores_conventional_eq:
  assumes "accuracy_score lib = sk_accuracy_score"
    and "y_train s = Some yt" and "y_valid s = Some yv"
  shows "print_scores lib fitted_model s = print_scores_conventional lib fitted_model s"
proof (rule wp_ext)
  fix Q E
  show "wp (print_scores lib fitted_model) Q E s = wp (print_scores_conventional lib fitted_model) Q E s"
    unfolding print_scores_def print_scores_conventional_def
    by (simp add: wp_rules assms sk_accuracy_score_commute [of _ yt]
        sk_accuracy_score_commute [of _ yv] split: option.splits cong: wp_weak_cong)
qed


text \<open>
  C8. \<^verbatim>\<open>print_scores\<close> passes the predictions first and the true labels second. The
  documented accuracy is the same with its arguments exchanged, for all label vectors; so
  with it, and with \<open>y_train\<close> and \<open>y_valid\<close> assigned, \<^verbatim>\<open>print_scores\<close> does exactly what
  it would do with the arguments in the documented order.
\<close>

theorem accuracy_argument_order:
  assumes "accuracy_score lib = sk_accuracy_score"
    and "y_train s \<noteq> None" and "y_valid s \<noteq> None"
  shows "(\<forall>a b. accuracy_score lib a b = accuracy_score lib b a) \<and>
         print_scores lib fitted_model s = print_scores_conventional lib fitted_model s"
proof
  show "\<forall>a b. accuracy_score lib a b = accuracy_score lib b a"
    using sk_accuracy_score_commute by (simp add: assms(1))
next
  from assms(2,3) obtain yt yv where "y_train s = Some yt" and "y_valid s = Some yv"
    by auto
  with assms(1) show "print_scores lib fitted_model s = print_scores_conventional lib fitted_model s"
    by (rule print_scores_conventional_eq)
qed

theorem accuracy_argument_order_witness:
  "accuracy_score demo_lib = sk_accuracy_score \<and>
   y_train demo_state \<noteq> None \<and> y_valid demo_state \<noteq> None \<and>
   accuracy_score demo_lib [0, 0] [0, 1] = Inr (Fin (1 / 2)) \<and>
   (\<forall>a b. accuracy_score demo_lib a b = accuracy_score demo_lib b a) \<and>
   print_scores demo_lib demo_fitted demo_state =
     print_scores_conventional demo_lib demo_fitted demo_state"
proof -
  have lib: "accuracy_score demo_lib = sk_accuracy_score"
    by (simp add: demo_lib_def)
  have train: "y_train demo_state \<noteq> None" and valid: "y_valid demo_state \<noteq> None"
    by (simp_all add: demo_state_def)
  have half: "accuracy_score demo_lib [0, 0] [0, 1] = Inr (Fin (1 / 2))"
    by (simp add: demo_lib_def sk_accuracy_score_def)
  from accuracy_argument_order [OF lib train valid, of demo_fitted] lib train valid half
  show ?thesis by simp
qed

section \<open>The first noise series and the first signal series\<close>

lemma first_index_first:
  "v \<in> set xs \<Longrightarrow>
     first_index xs v < length xs \<and> xs ! first_index xs v = v \<and>
     (\<forall>k<first_index xs v. xs ! k \<noteq> v)"
proof (induction xs)
  case Nil
  then show ?case by simp
next
  case (Cons x xs)
  show ?case
  proof (cases "x = v")
    case True
    then show ?thesis by simp
  next
    case False
    with Cons.prems have "v \<in> set xs" by simp
    from Cons.IH [OF this] False show ?thesis
      by (auto simp: nth_Cons split: nat.splits)
  qed
qed

lemma np_argmin_Min:
  assumes "xs \<noteq> []"
  shows "np_argmin xs = Inr (first_index xs (Min (set xs)))"
proof (cases xs)
  case Nil
  with assms show ?thesis by simp
next
  case (Cons a list)
  have "Min (set (a # list)) = fold min list a" by (rule Min.set_eq_fold)
  with Cons show ?thesis by (simp only: np_argmin_def list.case)
qed

lemma np_argmax_Max:
  assumes "xs \<noteq> []"
  shows "np_argmax xs = Inr (first_index xs (Max (set xs)))"
proof (cases xs)
  case Nil
  with assms show ?thesis by simp
next
  case (Cons a list)
  have "Max (set (a # list)) = fold max list a" by (rule Max.set_eq_fold)
  with Cons show ?thesis by (simp only: np_argmax_def list.case)
qed

lemma np_argmin_mixed:
  assumes "set ls = {0, 1}"
  shows "np_argmin ls = Inr (first_index ls 0)"
proof -
  from assms have "ls \<noteq> []" by auto
  moreover from assms have "Min (set ls) = 0" by simp
  ultimately show ?thesis by (simp add: np_argmin_Min)
qed

lemma np_argmax_mixed:
  assumes "set ls = {0, 1}"
  shows "np_argmax ls = Inr (first_index ls 1)"
proof -
  from assms have "ls \<noteq> []" by auto
  moreover from assms have "Max (set ls) = 1" by simp
  ultimately show ?thesis by (simp add: np_argmax_Max)
qed

lemma first_index_constant: "set ls = {v} \<Longrightarrow> first_index ls v = 0"
  by (cases ls) auto

lemma np_argmin_constant:
  assumes "set ls = {v}"
  shows "np_argmin ls = Inr 0"
proof -
  from assms have "ls \<noteq> []" by auto
  moreover from assms have "Min (set ls) = v" by simp
  ultimately show ?thesis by (simp add: np_argmin_Min first_index_constant [OF assms])
qed

lemma np_argmax_constant:
  assumes "set ls = {v}"
  shows "np_argmax ls = Inr 0"
proof -
  from assms have "ls \<noteq> []" by auto
  moreover from assms have "Max (set ls) = v" by simp
  ultimately show ?thesis by (simp add: np_argmax_Max first_index_constant [OF assms])
qed

lemma ignores_log_indices: "ignores_log (\<lambda>s. (background_idx s, signal_idx s))"
  by (simp add: ignores_log_def)

text \<open>The indices are what \<^verbatim>\<open>argmin\<close> and \<^verbatim>\<open>argmax\<close> return, wherever the cell ends.\<close>

lemma cell_visualise_indices:
  assumes "labels s = Some ls" and "argmin lib ls = Inr i" and "argmax lib ls = Inr j"
  shows "wp (exec (cell_visualise lib))
           (\<lambda>_ s'. background_idx s' = Some i \<and> signal_idx s' = Some j)
           (\<lambda>_ s'. background_idx s' = Some i \<and> signal_idx s' = Some j) s"
  unfolding cell_visualise_def add_trace_stmt_def
  by (simp add: wp_rules assms getitem_returned getitem_raised split: option.splits
      cong: wp_weak_cong)


text \<open>
  C9. With the documented \<^verbatim>\<open>argmin\<close> and \<^verbatim>\<open>argmax\<close>: when the labels contain both a 0
  and a 1, \<open>background_idx\<close> is the smallest index whose label is 0 and \<open>signal_idx\<close> the
  smallest index whose label is 1. When all labels are 0, or all are 1, both are index
  0, so one of the two series shown is not of the kind it is shown as: with only 0s the
  series shown as containing a signal has label 0, with only 1s the series shown as pure
  noise has label 1.
\<close>

theorem first_noise_first_signal:
  assumes "argmin lib = np_argmin" and "argmax lib = np_argmax"
    and "labels s = Some ls" and "exec (cell_visualise lib) s = (r, s')"
  shows "(set ls = {0, 1} \<longrightarrow>
            (\<exists>i j. np_argmin ls = Inr i \<and> np_argmax ls = Inr j \<and>
                   background_idx s' = Some i \<and> signal_idx s' = Some j \<and>
                   i < length ls \<and> ls ! i = 0 \<and> (\<forall>k<i. ls ! k \<noteq> 0) \<and>
                   j < length ls \<and> ls ! j = 1 \<and> (\<forall>k<j. ls ! k \<noteq> 1))) \<and>
         (set ls = {0} \<longrightarrow>
            np_argmin ls = Inr 0 \<and> np_argmax ls = Inr 0 \<and>
            background_idx s' = Some 0 \<and> signal_idx s' = Some 0 \<and> ls ! 0 \<noteq> 1) \<and>
         (set ls = {1} \<longrightarrow>
            np_argmin ls = Inr 0 \<and> np_argmax ls = Inr 0 \<and>
            background_idx s' = Some 0 \<and> signal_idx s' = Some 0 \<and> ls ! 0 \<noteq> 0)"
proof -
  have indices: "background_idx s' = Some i \<and> signal_idx s' = Some j"
    if "np_argmin ls = Inr i" and "np_argmax ls = Inr j" for i j
  proof -
    from that assms(1,2) have "argmin lib ls = Inr i" and "argmax lib ls = Inr j"
      by simp_all
    from cell_visualise_indices [OF assms(3) this] assms(4) show ?thesis
      by (cases r) (auto dest: wp_returned wp_raised)
  qed
  have mixed: "\<exists>i j. np_argmin ls = Inr i \<and> np_argmax ls = Inr j \<and>
      background_idx s' = Some i \<and> signal_idx s' = Some j \<and>
      i < length ls \<and> ls ! i = 0 \<and> (\<forall>k<i. ls ! k \<noteq> 0) \<and>
      j < length ls \<and> ls ! j = 1 \<and> (\<forall>k<j. ls ! k \<noteq> 1)"
    if both: "set ls = {0, 1}"
  proof -
    from both have zero: "0 \<in> set ls" and one: "1 \<in> set ls" by simp_all
    have "first_index ls 0 < length ls \<and> ls ! first_index ls 0 = 0 \<and>
        (\<forall>k<first_index ls 0. ls ! k \<noteq> 0)"
      using zero by (rule first_index_first)
    moreover have "first_index ls 1 < length ls \<and> ls ! first_index ls 1 = 1 \<and>
        (\<forall>k<first_index ls 1. ls ! k \<noteq> 1)"
      using one by (rule first_index_first)
    ultimately show ?thesis
      using indices [OF np_argmin_mixed [OF both] np_argmax_mixed [OF both]]
        np_argmin_mixed [OF both] np_argmax_mixed [OF both]
      by blast
  qed
  have uniform: "np_argmin ls = Inr 0 \<and> np_argmax ls = Inr 0 \<and>
      background_idx s' = Some 0 \<and> signal_idx s' = Some 0 \<and> ls ! 0 = v"
    if same: "set ls = {v}" for v
  proof -
    from same have "ls \<noteq> []" and "\<forall>l\<in>set ls. l = v" by auto
    then have "ls ! 0 = v" by (cases ls) simp_all
    with indices [OF np_argmin_constant [OF same] np_argmax_constant [OF same]]
      np_argmin_constant [OF same] np_argmax_constant [OF same]
    show ?thesis by blast
  qed
  from mixed uniform [of 0] uniform [of 1] show ?thesis by simp
qed

lemma demo_visualise:
  "fst (exec (cell_visualise demo_lib) (labelled_state [1, 1, 0, 1])) = Inr ()"
  by (simp add: cell_visualise_def add_trace_stmt_def nb_defs labelled_state_def kernel_start_def
      demo_lib_def np_argmin_def np_argmax_def getitem_def)

theorem first_noise_first_signal_witness:
  "argmin demo_lib = np_argmin \<and> argmax demo_lib = np_argmax \<and>
   set [1, 1, 0, 1 :: int] = {0, 1} \<and> set [0, 0 :: int] = {0} \<and> set [1, 1, 1 :: int] = {1} \<and>
   fst (exec (cell_visualise demo_lib) (labelled_state [1, 1, 0, 1])) = Inr () \<and>
   background_idx (snd (exec (cell_visualise demo_lib) (labelled_state [1, 1, 0, 1]))) = Some 2 \<and>
   signal_idx (snd (exec (cell_visualise demo_lib) (labelled_state [1, 1, 0, 1]))) = Some 0 \<and>
   background_idx (snd (exec (cell_visualise demo_lib) (labelled_state [0, 0]))) = Some 0 \<and>
   signal_idx (snd (exec (cell_visualise demo_lib) (labelled_state [0, 0]))) = Some 0 \<and>
   background_idx (snd (exec (cell_visualise demo_lib) (labelled_state [1, 1, 1]))) = Some 0 \<and>
   signal_idx (snd (exec (cell_visualise demo_lib) (labelled_state [1, 1, 1]))) = Some 0"
proof -
  have lib: "argmin demo_lib = np_argmin" "argmax demo_lib = np_argmax"
    by (simp_all add: demo_lib_def)
  have sets: "set [1, 1, 0, 1 :: int] = {0, 1}" "set [0, 0 :: int] = {0}" "set [1, 1, 1 :: int] = {1}"
    by auto
  have run: "exec (cell_visualise demo_lib) (labelled_state ls) =
      (fst (exec (cell_visualise demo_lib) (labelled_state ls)),
       snd (exec (cell_visualise demo_lib) (labelled_state ls)))" for ls
    by simp
  have labelled: "labels (labelled_state ls) = Some ls" for ls
    by (simp add: labelled_state_def)
  note inst = first_noise_first_signal [OF lib labelled run]
  have mixed: "np_argmin [1, 1, 0, 1] = Inr 2" "np_argmax [1, 1, 0, 1] = Inr 0"
    by (simp_all add: np_argmin_def np_argmax_def)
  from inst [of "[1, 1, 0, 1]"] sets(1) mixed
  have a: "background_idx (snd (exec (cell_visualise demo_lib) (labelled_state [1, 1, 0, 1]))) = Some 2"
    "signal_idx (snd (exec (cell_visualise demo_lib) (labelled_state [1, 1, 0, 1]))) = Some 0"
    by auto
  from inst [of "[0, 0]"] sets(2)
  have b: "background_idx (snd (exec (cell_visualise demo_lib) (labelled_state [0, 0]))) = Some 0"
    "signal_idx (snd (exec (cell_visualise demo_lib) (labelled_state [0, 0]))) = Some 0"
    by auto
  from inst [of "[1, 1, 1]"] sets(3)
  have c: "background_idx (snd (exec (cell_visualise demo_lib) (labelled_state [1, 1, 1]))) = Some 0"
    "signal_idx (snd (exec (cell_visualise demo_lib) (labelled_state [1, 1, 1]))) = Some 0"
    by auto
  from lib sets demo_visualise a b c show ?thesis by simp
qed

section \<open>What a run of the whole notebook does\<close>

lemma run_outcome: "wp (exec (notebook lib)) (\<lambda>_. run_returned lib) run_raised kernel_start"
  unfolding notebook_def cell_defs generate_stmt_def print_scores_def
  apply (simp add: wp_rules kernel_start_fields generator_returned generator_raised
      getitem_returned getitem_raised model_predict_def model_predict_proba_def
      cong: wp_weak_cong)
  apply (intro conjI allI impI)
  apply (simp_all add: run_raised_def notebook_actions_def column1_raised)
  apply (clarsimp simp: run_returned_def notebook_actions_def topological_steps_def)
  done

lemma run_notebook_returned: "run_notebook lib = (Inr u, s') \<Longrightarrow> run_returned lib s'"
  unfolding run_notebook_def by (rule wp_returned [OF run_outcome])

lemma run_notebook_raised: "run_notebook lib = (Inl e, s') \<Longrightarrow> run_raised e s'"
  unfolding run_notebook_def by (rule wp_raised [OF run_outcome])

lemma run_notebook_prefix:
  "prefix (map action_of (effects (snd (run_notebook lib)))) notebook_actions"
proof (cases "run_notebook lib")
  case (Pair r s')
  show ?thesis
  proof (cases r)
    case (Inl e)
    with Pair run_notebook_raised [of lib e s'] show ?thesis
      by (simp add: run_raised_def)
  next
    case (Inr u)
    with Pair run_notebook_returned [of lib u s'] show ?thesis
      by (simp add: run_returned_def)
  qed
qed

text \<open>The calls and the stages are read off the actions.\<close>

lemma calls_actions: "calls es = concat (map call_of (map action_of es))"
  by (induction es rule: calls.induct) simp_all

lemma calls_prefix: "prefix as bs \<Longrightarrow> prefix (concat (map call_of as)) (concat (map call_of bs))"
  by (auto simp: prefix_def)

lemma stages_prefix: "prefix xs ys \<Longrightarrow> prefix (List.map_filter stage_of xs) (List.map_filter stage_of ys)"
  by (auto simp: prefix_def List.map_filter_def)

lemma notebook_actions_stages:
  "List.map_filter stage_of (concat (map call_of notebook_actions)) = notebook_stages"
  by (simp add: notebook_actions_def notebook_stages_def)


lemma run_notebook_stages_prefix:
  "prefix (stages (effects (snd (run_notebook lib)))) notebook_stages"
  using stages_prefix [OF calls_prefix [OF run_notebook_prefix [of lib]]]
  by (simp add: stages_def calls_actions notebook_actions_stages)

lemma raised_append: "raised (es @ fs) = raised es @ raised fs"
  by (induction es rule: raised.induct) simp_all

lemma raised_member: "Call opn (Raised e) \<in> set es \<Longrightarrow> e \<in> set (raised es)"
  by (induction es rule: raised.induct) auto

lemma raised_last:
  assumes "raised es = [e]" and "last es = Call opn (Raised e)"
    and "Call opn' (Raised e') \<in> set es"
  shows "opn' = opn \<and> e' = e"
proof -
  from assms(1) have "es \<noteq> []" by auto
  then have es: "es = butlast es @ [Call opn (Raised e)]"
    using assms(2) by (metis append_butlast_last_id)
  then have "raised es = raised (butlast es) @ [e]"
    by (metis raised_append raised.simps(1,2))
  with assms(1) have "raised (butlast es) = []" by simp
  then have "Call opn' (Raised e') \<notin> set (butlast es)"
    using raised_member by fastforce
  with assms(3) es show ?thesis
    by (metis Un_iff empty_iff event.inject(1) insert_iff list.set(1,2) outcome.inject set_append)
qed

section \<open>Two runs\<close>

lemma demo_returns: "fst (run_notebook demo_lib) = Inr ()"
  unfolding run_notebook_def notebook_def cell_defs generate_stmt_def print_scores_def
  by (simp add: nb_defs kernel_start_def demo_lib_def make_gravitational_waves_def label_of_def
      getitem_def column1_def np_argmin_def np_argmax_def model_predict_def
      model_predict_proba_def sk_accuracy_score_def)

lemma demo_effects:
  "effects (snd (run_notebook demo_lib)) =
     [Call (YouTubeVideo ''Y3eR49ogsF0'' 600 400) Returned, Display,
      Call (YouTubeVideo ''QyDcTbR-kEA'' 600 400) Returned, Display,
      Call (MakeGravitationalWaves ''./data'' 100 (65 / 100) (65 / 100) 1) Returned,
      Print ''Number of noisy signals: '' (PNat 2),
      Print ''Number of timesteps per series: '' (PNat 3),
      Call Argmin Returned, Call Argmax Returned,
      Call (MakeSubplots 1 2) Returned,
      Call (AddTrace ''noise'' 1 1) Returned, Call (AddTrace ''background'' 1 2) Returned,
      Call (AddTrace ''signal'' 1 2) Returned, Call FigShow Returned,
      Call (FitTransform (SingleTakensEmbedding ''search'' 6 30 30 5)) Returned,
      Call (FitTransform (PCA 3)) Returned, Call PlotPointCloud Returned, Display,
      Call (FitTransform (SingleTakensEmbedding ''search'' 6 30 30 5)) Returned,
      Call (FitTransform (PCA 3)) Returned, Call PlotPointCloud Returned, Display,
      Call (FitTransform (TakensEmbedding 10 200 10)) Returned,
      Call (FitTransform (CollectionTransformer (PCA 3) (- 1))) Returned,
      Call (FitTransform (VietorisRipsPersistence [0, 1] (- 1))) Returned,
      Call (FitTransform Scaler) Returned,
      Call (FitTransform (PersistenceEntropy True (- 10))) Returned,
      Call (TrainTestSplit (1 / 10) 42) Returned,
      Call (Fit LogisticRegression) Returned,
      Call Predict Returned, Call AccuracyScore Returned,
      Call PredictProba Returned, Call RocAucScore Returned,
      Call Predict Returned, Call AccuracyScore Returned,
      Call PredictProba Returned, Call RocAucScore Returned,
      Print ''Accuracy on train:'' (PFloat (Fin (1 / 2))),
      Print ''ROC AUC on train:'' (PFloat (Fin 1)),
      Print ''Accuracy on valid:'' (PFloat (Fin (1 / 2))),
      Print ''ROC AUC on valid:'' (PFloat (Fin 1))]"
  unfolding run_notebook_def notebook_def cell_defs generate_stmt_def print_scores_def
  by (simp add: nb_defs kernel_start_def demo_lib_def make_gravitational_waves_def label_of_def
      getitem_def column1_def np_argmin_def np_argmax_def model_predict_def
      model_predict_proba_def sk_accuracy_score_def round_half_even_def)

lemma failing_run:
  "fst (run_notebook failing_lib) = Inl (Exception ''out of memory'') \<and>
   drop 22 (effects (snd (run_notebook failing_lib))) =
     [Call (FitTransform (TakensEmbedding 10 200 10)) Returned,
      Call (FitTransform (CollectionTransformer (PCA 3) (- 1))) Returned,
      Call (FitTransform (VietorisRipsPersistence [0, 1] (- 1))) (Raised (Exception ''out of memory''))]"
  unfolding run_notebook_def notebook_def cell_defs generate_stmt_def print_scores_def
  by (simp add: nb_defs kernel_start_def demo_lib_def failing_lib_def make_gravitational_waves_def
      label_of_def getitem_def column1_def np_argmin_def np_argmax_def)

lemma pipeline_returns:
  assumes "fit_transform lib (TakensEmbedding 10 200 10) X = Inr e1"
    and "fit_transform lib (CollectionTransformer (PCA 3) (- 1)) e1 = Inr e2"
    and "fit_transform lib (VietorisRipsPersistence [0, 1] (- 1)) e2 = Inr e3"
    and "fit_transform lib Scaler e3 = Inr e4"
    and "fit_transform lib (PersistenceEntropy True (- 10)) e4 = Inr F"
  shows "fst (pipeline_fit_transform lib (Pipeline topological_steps) X s) = Inr F"
  using assms by (simp add: topological_steps_def nb_bind_def nb_call_def nb_return_def)

lemma run_returned_calls:
  assumes "run_returned lib s'"
  shows "calls (effects s') = concat (map call_of notebook_actions)"
  using assms by (simp add: calls_actions run_returned_def)

text \<open>
  C1. In a run that returns, the five steps (time-delay embedding, PCA on each point
  cloud, Vietoris-Rips persistence, scaling, persistence entropy) are in one \<^verbatim>\<open>Pipeline\<close>
  object, in this order; \<open>features\<close> is what that pipeline's \<^verbatim>\<open>fit_transform\<close> returns for
  the noisy signals, and each step has run exactly once; the features and the labels are
  split, a \<^verbatim>\<open>LogisticRegression\<close> constructed without arguments is fitted on the training
  part, and the accuracy and the ROC AUC of its predictions on the training and the
  validation part are what the last four printed lines show.
\<close>

theorem pipeline_then_classifier:
  assumes "run_notebook lib = (Inr u, s')"
  shows "\<exists>xs ls F Xt Xv yt yv p pt qt ct a1 r1 pv qv cv a2 r2.
     topological_transfomer s' =
       Some (Pipeline [(''embedder'', TakensEmbedding 10 200 10),
                       (''pca'', CollectionTransformer (PCA 3) (- 1)),
                       (''persistence'', VietorisRipsPersistence [0, 1] (- 1)),
                       (''scaling'', Scaler),
                       (''entropy'', PersistenceEntropy True (- 10))]) \<and>
     noisy_signals s' = Some xs \<and> labels s' = Some ls \<and>
     (\<forall>s. fst (pipeline_fit_transform lib (Pipeline topological_steps) (of_collection xs) s) = Inr F) \<and>
     features s' = Some F \<and>
     list_all (\<lambda>st. count_list (calls (effects s')) (FitTransform (snd st)) = 1) topological_steps \<and>
     train_test_split lib F ls (1 / 10) 42 = Inr (Xt, Xv, yt, yv) \<and>
     fit lib LogisticRegression Xt yt = Inr p \<and>
     model s' = Some (Classifier LogisticRegression (Some p)) \<and>
     predict lib p Xt = Inr pt \<and> accuracy_score lib pt yt = Inr a1 \<and>
     predict_proba lib p Xt = Inr qt \<and> column1 qt = Inr ct \<and> roc_auc_score lib yt ct = Inr r1 \<and>
     predict lib p Xv = Inr pv \<and> accuracy_score lib pv yv = Inr a2 \<and>
     predict_proba lib p Xv = Inr qv \<and> column1 qv = Inr cv \<and> roc_auc_score lib yv cv = Inr r2 \<and>
     drop 2 (printed_lines (effects s')) =
       [(''Accuracy on train:'', PFloat (py_round a1 3)),
        (''ROC AUC on train:'', PFloat (py_round r1 3)),
        (''Accuracy on valid:'', PFloat (py_round a2 3)),
        (''ROC AUC on valid:'', PFloat (py_round r2 3))]"
proof -
  have returned: "run_returned lib s'"
    using assms by (rule run_notebook_returned)
  have once: "list_all (\<lambda>st. count_list (calls (effects s')) (FitTransform (snd st)) = 1) topological_steps"
    by (simp add: run_returned_calls [OF returned] notebook_actions_def topological_steps_def)
  from returned obtain ss e1 e2 e3 e4 F Xt Xv yt yv p pt qt ct a1 r1 pv qv cv a2 r2 where
    vars: "noisy_signals s' = Some (map noisy ss)" "labels s' = Some (map label_of ss)"
      "topological_transfomer s' = Some (Pipeline topological_steps)"
      "features s' = Some F"
      "model s' = Some (Classifier LogisticRegression (Some p))"
    and chain: "fit_transform lib (TakensEmbedding 10 200 10) (of_collection (map noisy ss)) = Inr e1"
      "fit_transform lib (CollectionTransformer (PCA 3) (- 1)) e1 = Inr e2"
      "fit_transform lib (VietorisRipsPersistence [0, 1] (- 1)) e2 = Inr e3"
      "fit_transform lib Scaler e3 = Inr e4"
      "fit_transform lib (PersistenceEntropy True (- 10)) e4 = Inr F"
    and train: "train_test_split lib F (map label_of ss) (1 / 10) 42 = Inr (Xt, Xv, yt, yv)"
      "fit lib LogisticRegression Xt yt = Inr p"
    and scores: "predict lib p Xt = Inr pt" "accuracy_score lib pt yt = Inr a1"
      "predict_proba lib p Xt = Inr qt" "column1 qt = Inr ct" "roc_auc_score lib yt ct = Inr r1"
      "predict lib p Xv = Inr pv" "accuracy_score lib pv yv = Inr a2"
      "predict_proba lib p Xv = Inr qv" "column1 qv = Inr cv" "roc_auc_score lib yv cv = Inr r2"
    and lines: "printed_lines (effects s') =
          [(''Number of noisy signals: '', PNat (length ss)),
           (''Number of timesteps per series: '', PNat (length (noisy (ss ! 0)))),
           (''Accuracy on train:'', PFloat (py_round a1 3)),
           (''ROC AUC on train:'', PFloat (py_round r1 3)),
           (''Accuracy on valid:'', PFloat (py_round a2 3)),
           (''ROC AUC on valid:'', PFloat (py_round r2 3))]"
    unfolding run_returned_def by (elim conjE exE) (rule that; assumption)
  have pipe: "\<forall>s. fst (pipeline_fit_transform lib (Pipeline topological_steps)
      (of_collection (map noisy ss)) s) = Inr F"
    using pipeline_returns [OF chain] by blast
  have obj: "topological_transfomer s' =
       Some (Pipeline [(''embedder'', TakensEmbedding 10 200 10),
                       (''pca'', CollectionTransformer (PCA 3) (- 1)),
                       (''persistence'', VietorisRipsPersistence [0, 1] (- 1)),
                       (''scaling'', Scaler),
                       (''entropy'', PersistenceEntropy True (- 10))])"
    using vars(3) by (simp add: topological_steps_def)
  have last4: "drop 2 (printed_lines (effects s')) =
       [(''Accuracy on train:'', PFloat (py_round a1 3)),
        (''ROC AUC on train:'', PFloat (py_round r1 3)),
        (''Accuracy on valid:'', PFloat (py_round a2 3)),
        (''ROC AUC on valid:'', PFloat (py_round r2 3))]"
    by (simp add: lines)
  from obj vars(1,2,4,5) pipe once train scores last4 show ?thesis
    by blast
qed


theorem pipeline_then_classifier_witness:
  "fst (run_notebook demo_lib) = Inr () \<and>
   (\<exists>xs ls F Xt Xv yt yv p pt qt ct a1 r1 pv qv cv a2 r2.
     topological_transfomer (snd (run_notebook demo_lib)) =
       Some (Pipeline [(''embedder'', TakensEmbedding 10 200 10),
                       (''pca'', CollectionTransformer (PCA 3) (- 1)),
                       (''persistence'', VietorisRipsPersistence [0, 1] (- 1)),
                       (''scaling'', Scaler),
                       (''entropy'', PersistenceEntropy True (- 10))]) \<and>
     noisy_signals (snd (run_notebook demo_lib)) = Some xs \<and> labels (snd (run_notebook demo_lib)) = Some ls \<and>
     (\<forall>s. fst (pipeline_fit_transform demo_lib (Pipeline topological_steps) (of_collection xs) s) = Inr F) \<and>
     features (snd (run_notebook demo_lib)) = Some F \<and>
     list_all (\<lambda>st. count_list (calls (effects (snd (run_notebook demo_lib)))) (FitTransform (snd st)) = 1) topological_steps \<and>
     train_test_split demo_lib F ls (1 / 10) 42 = Inr (Xt, Xv, yt, yv) \<and>
     fit demo_lib LogisticRegression Xt yt = Inr p \<and>
     model (snd (run_notebook demo_lib)) = Some (Classifier LogisticRegression (Some p)) \<and>
     predict demo_lib p Xt = Inr pt \<and> accuracy_score demo_lib pt yt = Inr a1 \<and>
     predict_proba demo_lib p Xt = Inr qt \<and> column1 qt = Inr ct \<and> roc_auc_score demo_lib yt ct = Inr r1 \<and>
     predict demo_lib p Xv = Inr pv \<and> accuracy_score demo_lib pv yv = Inr a2 \<and>
     predict_proba demo_lib p Xv = Inr qv \<and> column1 qv = Inr cv \<and> roc_auc_score demo_lib yv cv = Inr r2 \<and>
     drop 2 (printed_lines (effects (snd (run_notebook demo_lib)))) =
       [(''Accuracy on train:'', PFloat (py_round a1 3)),
        (''ROC AUC on train:'', PFloat (py_round r1 3)),
        (''Accuracy on valid:'', PFloat (py_round a2 3)),
        (''ROC AUC on valid:'', PFloat (py_round r2 3))])"
proof -
  have run: "run_notebook demo_lib = (Inr (), snd (run_notebook demo_lib))"
    using demo_returns by (simp add: prod_eq_iff)
  from demo_returns pipeline_then_classifier [OF run] show ?thesis
    by (rule conjI)
qed

text \<open>
  C4, as stated: the stages of a run never go back in the spec's list (data generation,
  embedding, PCA, persistent homology, entropy scaling, train/test split, logistic
  regression, plotting). It fails on a run in which every call returns: plotting comes
  right after the data generation, long before the embedding.
\<close>

theorem listed_order_counterexample:
  "\<not> in_listed_order (stages (effects (snd (run_notebook demo_lib))))"
  by (simp add: demo_effects stages_def in_listed_order_def List.map_filter_simps)

text \<open>
  C4, amended. The stages of a run are an initial part of \<open>notebook_stages\<close>: data
  generation; five plotting calls for two example series; embedding, PCA and a plot, for
  one signal and again for one noise series; then embedding, PCA, persistent homology,
  scaling and entropy, as the pipeline runs them; the train/test split; the fit and the
  four prediction calls. A run that returns has all of them, and each call was given what
  earlier calls returned (\<open>run_returned\<close>).
\<close>

theorem stages_of_a_run:
  "prefix (stages (effects (snd (run_notebook lib)))) notebook_stages \<and>
   (fst (run_notebook lib) = Inr () \<longrightarrow>
      stages (effects (snd (run_notebook lib))) = notebook_stages \<and>
      run_returned lib (snd (run_notebook lib)))"
proof (intro conjI impI)
  show "prefix (stages (effects (snd (run_notebook lib)))) notebook_stages"
    by (rule run_notebook_stages_prefix)
next
  assume "fst (run_notebook lib) = Inr ()"
  then have "run_notebook lib = (Inr (), snd (run_notebook lib))"
    by (simp add: prod_eq_iff)
  then show returned: "run_returned lib (snd (run_notebook lib))"
    by (rule run_notebook_returned)
  then show "stages (effects (snd (run_notebook lib))) = notebook_stages"
    by (simp add: stages_def run_returned_calls notebook_actions_stages)
qed

theorem stages_of_a_run_witness:
  "fst (run_notebook demo_lib) = Inr () \<and>
   stages (effects (snd (run_notebook demo_lib))) = notebook_stages \<and>
   run_returned demo_lib (snd (run_notebook demo_lib)) \<and>
   prefix (stages (effects (snd (run_notebook failing_lib)))) notebook_stages"
  using demo_returns stages_of_a_run [of demo_lib] stages_of_a_run [of failing_lib]
  by simp

text \<open>
  C6. The notebook has no exception handler. If a library call raised \<open>e\<close> during a run,
  the run ended there, raising \<open>e\<close>: that call is the last effect. And whatever a run
  raises is the exception of its last library call, or else the \<^verbatim>\<open>IndexError\<close> of one of
  the notebook's own index expressions, with no library call having raised.
\<close>

theorem exceptions_propagate:
  assumes "run_notebook lib = (r, s')"
  shows "(\<forall>opn e. Call opn (Raised e) \<in> set (effects s') \<longrightarrow>
            r = Inl e \<and> last (effects s') = Call opn (Raised e)) \<and>
         (\<forall>e. r = Inl e \<longrightarrow>
            (\<exists>opn. effects s' \<noteq> [] \<and> last (effects s') = Call opn (Raised e)) \<or>
            e = IndexError \<and> raised (effects s') = [])"
proof (cases r)
  case (Inr u)
  with assms have "run_returned lib s'" by (simp add: run_notebook_returned)
  then have "raised (effects s') = []" by (simp add: run_returned_def)
  then have "Call opn (Raised e) \<notin> set (effects s')" for opn e
    using raised_member by fastforce
  with Inr show ?thesis by simp
next
  case (Inl e)
  with assms have "run_raised e s'" by (simp add: run_notebook_raised)
  then consider
    (library) opn where "raised (effects s') = [e]" and "last (effects s') = Call opn (Raised e)"
    | (index) "raised (effects s') = []" and "e = IndexError"
    by (auto simp: run_raised_def)
  then show ?thesis
  proof cases
    case library
    from library(1) have nonempty: "effects s' \<noteq> []" by auto
    have "opn' = opn \<and> e' = e" if "Call opn' (Raised e') \<in> set (effects s')" for opn' e'
      using library that by (rule raised_last)
    with Inl library(2) nonempty show ?thesis by auto
  next
    case index
    then have "Call opn (Raised e') \<notin> set (effects s')" for opn e'
      using raised_member by fastforce
    with Inl index show ?thesis by simp
  qed
qed

theorem exceptions_propagate_witness:
  "Call (FitTransform (VietorisRipsPersistence [0, 1] (- 1))) (Raised (Exception ''out of memory''))
     \<in> set (effects (snd (run_notebook failing_lib))) \<and>
   fst (run_notebook failing_lib) = Inl (Exception ''out of memory'') \<and>
   last (effects (snd (run_notebook failing_lib))) =
     Call (FitTransform (VietorisRipsPersistence [0, 1] (- 1))) (Raised (Exception ''out of memory''))"
proof -
  have run: "run_notebook failing_lib = (fst (run_notebook failing_lib), snd (run_notebook failing_lib))"
    by simp
  have "Call (FitTransform (VietorisRipsPersistence [0, 1] (- 1))) (Raised (Exception ''out of memory''))
      \<in> set (drop 22 (effects (snd (run_notebook failing_lib))))"
    by (simp add: failing_run)
  then have raised: "Call (FitTransform (VietorisRipsPersistence [0, 1] (- 1)))
      (Raised (Exception ''out of memory'')) \<in> set (effects (snd (run_notebook failing_lib)))"
    by (rule in_set_dropD)
  with exceptions_propagate [OF run] show ?thesis by blast
qed

text \<open>
  C7. Every effect of a run, whether it returns or raises, is one of the notebook's
  library calls, a \<^verbatim>\<open>print\<close> or a displayed output. No library call is given a path
  except the generator, which is given \<^verbatim>\<open>./data\<close>, and the notebook's own code writes no
  file.
\<close>

theorem effects_in_memory:
  "\<forall>ev\<in>set (effects (snd (run_notebook lib))).
     action_of ev \<in> set notebook_actions \<and>
     (case ev of
        Call opn oc \<Rightarrow> path_argument opn = None \<or> path_argument opn = Some ''./data''
      | Print k v \<Rightarrow> True
      | Display \<Rightarrow> True
      | WriteFile path \<Rightarrow> False)"
proof
  fix ev
  assume "ev \<in> set (effects (snd (run_notebook lib)))"
  then have "action_of ev \<in> set (map action_of (effects (snd (run_notebook lib))))"
    by simp
  then have member: "action_of ev \<in> set notebook_actions"
    using run_notebook_prefix [of lib] set_mono_prefix by blast
  then have "case ev of
        Call opn oc \<Rightarrow> path_argument opn = None \<or> path_argument opn = Some ''./data''
      | Print k v \<Rightarrow> True
      | Display \<Rightarrow> True
      | WriteFile path \<Rightarrow> False"
    by (cases ev) (auto simp: notebook_actions_def)
  with member show "action_of ev \<in> set notebook_actions \<and>
     (case ev of
        Call opn oc \<Rightarrow> path_argument opn = None \<or> path_argument opn = Some ''./data''
      | Print k v \<Rightarrow> True
      | Display \<Rightarrow> True
      | WriteFile path \<Rightarrow> False)" ..
qed

theorem effects_in_memory_witness:
  "Call (MakeGravitationalWaves ''./data'' 100 (65 / 100) (65 / 100) 1) Returned
     \<in> set (effects (snd (run_notebook demo_lib))) \<and>
   path_argument (MakeGravitationalWaves ''./data'' 100 (65 / 100) (65 / 100) 1) = Some ''./data'' \<and>
   (\<forall>path. WriteFile path \<notin> set (effects (snd (run_notebook demo_lib)))) \<and>
   (\<forall>path. WriteFile path \<notin> set (effects (snd (run_notebook failing_lib))))"
proof -
  have "Call (MakeGravitationalWaves ''./data'' 100 (65 / 100) (65 / 100) 1) Returned
      \<in> set (effects (snd (run_notebook demo_lib)))"
    by (simp add: demo_effects)
  moreover have "WriteFile path \<notin> set (effects (snd (run_notebook demo_lib)))" for path
    using effects_in_memory [of demo_lib] by fastforce
  moreover have "WriteFile path \<notin> set (effects (snd (run_notebook failing_lib)))" for path
    using effects_in_memory [of failing_lib] by fastforce
  ultimately show ?thesis by simp
qed

section \<open>The range of the printed metrics\<close>

lemma sum_list_bounds:
  assumes "\<And>x. x \<in> set xs \<Longrightarrow> 0 \<le> f x \<and> f x \<le> c"
  shows "0 \<le> sum_list (map f xs) \<and> sum_list (map f xs) \<le> real (length xs) * (c :: real)"
  using assms by (induction xs) (auto simp: algebra_simps, fastforce+)

lemma pair_credit_bounds: "0 \<le> pair_credit p n \<and> pair_credit p n \<le> 1"
  by (simp add: pair_credit_def)

lemma pairs_bounds:
  "0 \<le> sum_list (map (\<lambda>p. sum_list (map (pair_credit p) neg)) pos) \<and>
   sum_list (map (\<lambda>p. sum_list (map (pair_credit p) neg)) pos) \<le> real (length pos * length neg)"
proof -
  have inner: "0 \<le> sum_list (map (pair_credit p) neg) \<and>
      sum_list (map (pair_credit p) neg) \<le> real (length neg) * 1" for p
    by (rule sum_list_bounds) (rule pair_credit_bounds)
  have "0 \<le> sum_list (map (\<lambda>p. sum_list (map (pair_credit p) neg)) pos) \<and>
      sum_list (map (\<lambda>p. sum_list (map (pair_credit p) neg)) pos)
        \<le> real (length pos) * real (length neg)"
    by (rule sum_list_bounds) (use inner in simp)
  then show ?thesis by simp
qed

lemma ratio_unit: "0 \<le> a \<Longrightarrow> a \<le> b \<Longrightarrow> 0 \<le> a / b \<and> a / b \<le> (1 :: real)"
  by (cases "b = 0") (simp_all add: divide_le_eq_1)

lemma sk_roc_auc_score_unit:
  assumes "sk_roc_auc_score y sc = Inr v"
  shows "y \<noteq> [] \<and> (\<exists>x. v = Fin x \<and> 0 \<le> x \<and> x \<le> 1)"
proof -
  define positive where "positive = fold max y (hd y)"
  define pos where "pos = map snd (filter (\<lambda>(t, s). t = positive) (zip y sc))"
  define neg where "neg = map snd (filter (\<lambda>(t, s). t \<noteq> positive) (zip y sc))"
  define area where "area = sum_list (map (\<lambda>p. sum_list (map (pair_credit p) neg)) pos)
      / real (length pos * length neg)"
  have "sk_roc_auc_score y sc =
      (if length y \<noteq> length sc \<or> length (remdups y) \<noteq> 2 then Inl ValueError else Inr (Fin area))"
    unfolding sk_roc_auc_score_def Let_def area_def pos_def neg_def positive_def by (rule refl)
  with assms have two: "length (remdups y) = 2" and v: "v = Fin area"
    by (simp_all split: if_splits)
  from two have "y \<noteq> []" by auto
  moreover have "0 \<le> area \<and> area \<le> 1"
    unfolding area_def using pairs_bounds [of neg pos] by (intro ratio_unit) simp_all
  ultimately show ?thesis using v by blast
qed

lemma sk_accuracy_score_unit:
  assumes "sk_accuracy_score a b = Inr v" and "b \<noteq> []"
  shows "\<exists>x. v = Fin x \<and> 0 \<le> x \<and> x \<le> 1"
proof -
  from assms have len: "length a = length b" and "a \<noteq> []"
    by (auto simp: sk_accuracy_score_def split: if_splits)
  with assms have v: "v = Fin (real (length (filter (\<lambda>(t, p). t = p) (zip a b))) / real (length a))"
    by (auto simp: sk_accuracy_score_def split: if_splits)
  have "length (filter (\<lambda>(t, p). t = p) (zip a b)) \<le> length (zip a b)"
    by (rule length_filter_le)
  with len have "real (length (filter (\<lambda>(t, p). t = p) (zip a b))) \<le> real (length a)"
    by simp
  then have "0 \<le> real (length (filter (\<lambda>(t, p). t = p) (zip a b))) / real (length a) \<and>
      real (length (filter (\<lambda>(t, p). t = p) (zip a b))) / real (length a) \<le> 1"
    by (intro ratio_unit) simp_all
  with v show ?thesis by blast
qed

lemma round_half_even_range:
  assumes "0 \<le> x" and "x \<le> real_of_int n"
  shows "0 \<le> round_half_even x \<and> round_half_even x \<le> n"
proof -
  have floor: "0 \<le> \<lfloor>x\<rfloor>" "\<lfloor>x\<rfloor> \<le> n"
    using assms by (simp_all add: floor_le_iff le_floor_iff)
  show ?thesis
  proof (cases "x = real_of_int n")
    case True
    then show ?thesis using assms by (simp add: round_half_even_def)
  next
    case False
    with assms have "x < real_of_int n" by simp
    then have "\<lfloor>x\<rfloor> < n" by (simp add: floor_less_iff)
    with floor show ?thesis by (auto simp: round_half_even_def Let_def)
  qed
qed

lemma py_round_unit:
  assumes "0 \<le> x" and "x \<le> 1"
  shows "\<exists>b. py_round (Fin x) 3 = Fin b \<and> 0 \<le> b \<and> b \<le> 1"
proof -
  from assms have "0 \<le> x * 1000" and "x * 1000 \<le> real_of_int 1000" by simp_all
  then have "0 \<le> round_half_even (x * 1000) \<and> round_half_even (x * 1000) \<le> 1000"
    by (rule round_half_even_range)
  then show ?thesis
    by (intro exI [of _ "real_of_int (round_half_even (x * 1000)) / 1000"]) simp
qed

lemma scored_returns: "fst (run_notebook scored_lib) = Inr ()"
  unfolding run_notebook_def notebook_def cell_defs generate_stmt_def print_scores_def
  by (simp add: nb_defs kernel_start_def demo_lib_def scored_lib_def make_gravitational_waves_def
      label_of_def getitem_def column1_def np_argmin_def np_argmax_def model_predict_def
      model_predict_proba_def sk_accuracy_score_def sk_roc_auc_score_def)


lemma rounded_accuracy_unit:
  assumes "sk_accuracy_score p y = Inr v" and "y \<noteq> []"
  shows "\<exists>b. py_round v 3 = Fin b \<and> 0 \<le> b \<and> b \<le> 1"
proof -
  from assms obtain x where "v = Fin x" and "0 \<le> x" and "x \<le> 1"
    using sk_accuracy_score_unit by blast
  then show ?thesis using py_round_unit by blast
qed

lemma rounded_auc_unit:
  assumes "sk_roc_auc_score y sc = Inr v"
  shows "y \<noteq> [] \<and> (\<exists>b. py_round v 3 = Fin b \<and> 0 \<le> b \<and> b \<le> 1)"
proof -
  from assms obtain x where "y \<noteq> []" and "v = Fin x" and "0 \<le> x" and "x \<le> 1"
    using sk_roc_auc_score_unit by blast
  then show ?thesis using py_round_unit by blast
qed

text \<open>
  C5. With the two metrics of scikit-learn as documented, a run that returns has printed,
  after the two lines about the data, the accuracy and the ROC AUC on the training set and
  on the validation set, and each of the four printed values is a number between 0 and 1.
  (No NaN is printed: \<^verbatim>\<open>roc_auc_score\<close> raises on labels of a single class, so in a run
  that returns neither set is empty.)
\<close>

theorem printed_metrics_in_unit_interval:
  assumes accuracy: "accuracy_score lib = sk_accuracy_score"
    and auc: "roc_auc_score lib = sk_roc_auc_score"
    and run: "run_notebook lib = (Inr u, s')"
  shows "\<exists>a1 r1 a2 r2.
     drop 2 (printed_lines (effects s')) =
       [(''Accuracy on train:'', PFloat (Fin a1)),
        (''ROC AUC on train:'', PFloat (Fin r1)),
        (''Accuracy on valid:'', PFloat (Fin a2)),
        (''ROC AUC on valid:'', PFloat (Fin r2))] \<and>
     0 \<le> a1 \<and> a1 \<le> 1 \<and> 0 \<le> r1 \<and> r1 \<le> 1 \<and>
     0 \<le> a2 \<and> a2 \<le> 1 \<and> 0 \<le> r2 \<and> r2 \<le> 1"
proof -
  from run have "run_returned lib s'" by (rule run_notebook_returned)
  then obtain ss :: "sample list" and yt yv pt ct pv cv v1 v2 v3 v4 where
    scores: "accuracy_score lib pt yt = Inr v1" "roc_auc_score lib yt ct = Inr v2"
      "accuracy_score lib pv yv = Inr v3" "roc_auc_score lib yv cv = Inr v4"
    and lines: "printed_lines (effects s') =
          [(''Number of noisy signals: '', PNat (length ss)),
           (''Number of timesteps per series: '', PNat (length (noisy (ss ! 0)))),
           (''Accuracy on train:'', PFloat (py_round v1 3)),
           (''ROC AUC on train:'', PFloat (py_round v2 3)),
           (''Accuracy on valid:'', PFloat (py_round v3 3)),
           (''ROC AUC on valid:'', PFloat (py_round v4 3))]"
    unfolding run_returned_def by (elim conjE exE) (rule that; assumption)
  from scores have documented: "sk_accuracy_score pt yt = Inr v1" "sk_roc_auc_score yt ct = Inr v2"
      "sk_accuracy_score pv yv = Inr v3" "sk_roc_auc_score yv cv = Inr v4"
    by (simp_all add: accuracy auc)
  from rounded_auc_unit [OF documented(2)] obtain r1
    where train: "yt \<noteq> []" and r1: "py_round v2 3 = Fin r1" "0 \<le> r1" "r1 \<le> 1"
    by blast
  from rounded_auc_unit [OF documented(4)] obtain r2
    where valid: "yv \<noteq> []" and r2: "py_round v4 3 = Fin r2" "0 \<le> r2" "r2 \<le> 1"
    by blast
  from rounded_accuracy_unit [OF documented(1) train] obtain a1
    where a1: "py_round v1 3 = Fin a1" "0 \<le> a1" "a1 \<le> 1"
    by blast
  from rounded_accuracy_unit [OF documented(3) valid] obtain a2
    where a2: "py_round v3 3 = Fin a2" "0 \<le> a2" "a2 \<le> 1"
    by blast
  have "drop 2 (printed_lines (effects s')) =
       [(''Accuracy on train:'', PFloat (Fin a1)),
        (''ROC AUC on train:'', PFloat (Fin r1)),
        (''Accuracy on valid:'', PFloat (Fin a2)),
        (''ROC AUC on valid:'', PFloat (Fin r2))]"
    by (simp add: lines a1(1) r1(1) a2(1) r2(1))
  with a1(2,3) r1(2,3) a2(2,3) r2(2,3) show ?thesis
    by blast
qed

theorem printed_metrics_witness:
  "accuracy_score scored_lib = sk_accuracy_score \<and>
   roc_auc_score scored_lib = sk_roc_auc_score \<and>
   fst (run_notebook scored_lib) = Inr () \<and>
   (\<exists>a1 r1 a2 r2.
     drop 2 (printed_lines (effects (snd (run_notebook scored_lib)))) =
       [(''Accuracy on train:'', PFloat (Fin a1)),
        (''ROC AUC on train:'', PFloat (Fin r1)),
        (''Accuracy on valid:'', PFloat (Fin a2)),
        (''ROC AUC on valid:'', PFloat (Fin r2))] \<and>
     0 \<le> a1 \<and> a1 \<le> 1 \<and> 0 \<le> r1 \<and> r1 \<le> 1 \<and>
     0 \<le> a2 \<and> a2 \<le> 1 \<and> 0 \<le> r2 \<and> r2 \<le> 1)"
proof -
  have accuracy: "accuracy_score scored_lib = sk_accuracy_score"
    by (simp add: scored_lib_def demo_lib_def)
  have auc: "roc_auc_score scored_lib = sk_roc_auc_score"
    by (simp add: scored_lib_def)
  have run: "run_notebook scored_lib = (Inr (), snd (run_notebook scored_lib))"
    using scored_returns by (simp add: prod_eq_iff)
  from accuracy auc scored_returns printed_metrics_in_unit_interval [OF accuracy auc run]
  show ?thesis by (intro conjI)
qed

end
